theory Spec2Isabelle
  imports Main "HOL-Library.Word" "HOL-Library.Monad_Syntax" "HOL-Library.Multiset" "HOL-Library.AList"
begin

section \<open>The block-blob store of storage/blobstore.c\<close>

text \<open>
  A shallow embedding of \<^verbatim>\<open>storage/blobstore.c\<close>. Every C function is one HOL
  definition of the same name; a \<^verbatim>\<open>goto\<close> label is a definition named after the
  function and the label. The process state that the C code keeps in globals, and the
  parts of the operating system it talks to, are the fields of the record \<open>world\<close>,
  which every function takes and returns. A function returns \<open>None\<close> when the C code
  does not return (an endless wait for a lock, a failed \<^verbatim>\<open>assert\<close>).

  HOL strings stand for the characters of a C string before its terminating NUL. The
  fixed buffer sizes (\<^verbatim>\<open>PATH_MAX\<close> and the like) and failing \<^verbatim>\<open>calloc\<close> are not
  modelled.
\<close>

subsection \<open>Constants and enumerations\<close>

definition BLOBSTORE_METADATA_FILE :: string where
  "BLOBSTORE_METADATA_FILE = ''.blobstore''"

definition BLOBSTORE_METADATA_TIMEOUT_MS :: int where
  "BLOBSTORE_METADATA_TIMEOUT_MS = 999"

definition BLOBSTORE_SLEEP_INTERVAL_MS :: int where
  "BLOBSTORE_SLEEP_INTERVAL_MS = 99"

definition BLOBSTORE_MAX_CONCURRENT :: nat where
  "BLOBSTORE_MAX_CONCURRENT = 99"

definition BLOBSTORE_NO_TIMEOUT :: int where
  "BLOBSTORE_NO_TIMEOUT = - 1"

definition DM_PATH :: string where
  "DM_PATH = ''/dev/mapper/''"

definition MIN_BLOCKS_SNAPSHOT :: nat where
  "MIN_BLOCKS_SNAPSHOT = 32"

definition EUCA_ZERO :: string where
  "EUCA_ZERO = ''euca-zero''"

definition EUCA_ZERO_SIZE :: string where
  "EUCA_ZERO_SIZE = ''2199023255552''"

datatype blockblob_path_t =
    BLOCKBLOB_PATH_NONE
  | BLOCKBLOB_PATH_BLOCKS
  | BLOCKBLOB_PATH_DM
  | BLOCKBLOB_PATH_DEPS
  | BLOCKBLOB_PATH_LOOPBACK
  | BLOCKBLOB_PATH_SIG
  | BLOCKBLOB_PATH_REFS

fun blobstore_metadata_suffixes :: "blockblob_path_t \<Rightarrow> string" where
  "blobstore_metadata_suffixes BLOCKBLOB_PATH_NONE = ''none''"
| "blobstore_metadata_suffixes BLOCKBLOB_PATH_BLOCKS = ''blocks''"
| "blobstore_metadata_suffixes BLOCKBLOB_PATH_DM = ''dm''"
| "blobstore_metadata_suffixes BLOCKBLOB_PATH_DEPS = ''deps''"
| "blobstore_metadata_suffixes BLOCKBLOB_PATH_LOOPBACK = ''loopback''"
| "blobstore_metadata_suffixes BLOCKBLOB_PATH_SIG = ''sig''"
| "blobstore_metadata_suffixes BLOCKBLOB_PATH_REFS = ''refs''"

text \<open>
  Modelled from the spec: the header \<^verbatim>\<open>blobstore.h\<close> is not among the sources, so
  the error enumeration, the open flags, the in-use bits, the policies and the structs
  \<^verbatim>\<open>blobstore\<close>, \<^verbatim>\<open>blockblob\<close> and \<^verbatim>\<open>blockmap\<close> are declared here with the names
  the C file uses and the meaning the spec gives them. A bit mask is a set of named bits:
  \<^verbatim>\<open>flags & F\<close> is \<open>F \<in> flags\<close>, \<^verbatim>\<open>flags | F\<close> is \<open>insert F flags\<close>. Block counts
  (\<^verbatim>\<open>unsigned long long\<close>) are natural numbers.
\<close>

datatype blobstore_error_t =
    BLOBSTORE_ERROR_OK
  | BLOBSTORE_ERROR_NOENT
  | BLOBSTORE_ERROR_NOMEM
  | BLOBSTORE_ERROR_ACCES
  | BLOBSTORE_ERROR_EXIST
  | BLOBSTORE_ERROR_INVAL
  | BLOBSTORE_ERROR_NOSPC
  | BLOBSTORE_ERROR_AGAIN
  | BLOBSTORE_ERROR_MFILE
  | BLOBSTORE_ERROR_BADF
  | BLOBSTORE_ERROR_SIGNATURE
  | BLOBSTORE_ERROR_UNKNOWN

datatype blobstore_flag =
    BLOBSTORE_FLAG_RDWR
  | BLOBSTORE_FLAG_RDONLY
  | BLOBSTORE_FLAG_CREAT
  | BLOBSTORE_FLAG_EXCL
  | BLOBSTORE_FLAG_OTHER nat

datatype blockblob_status =
    BLOCKBLOB_STATUS_OPENED
  | BLOCKBLOB_STATUS_MAPPED
  | BLOCKBLOB_STATUS_BACKED

datatype blobstore_format_t =
  BLOBSTORE_FORMAT_ANY | BLOBSTORE_FORMAT_FILES | BLOBSTORE_FORMAT_DIRECTORY

datatype blobstore_revocation_t =
  BLOBSTORE_REVOCATION_ANY | BLOBSTORE_REVOCATION_NONE | BLOBSTORE_REVOCATION_LRU

datatype blobstore_snapshot_t =
  BLOBSTORE_SNAPSHOT_ANY | BLOBSTORE_SNAPSHOT_NONE | BLOBSTORE_SNAPSHOT_DM

datatype blockmap_relation_t = BLOBSTORE_COPY | BLOBSTORE_MAP | BLOBSTORE_SNAPSHOT

datatype blockmap_source_t = BLOBSTORE_DEVICE | BLOBSTORE_BLOCKBLOB | BLOBSTORE_ZERO

record blobstore =
  bs_id :: string
  bs_path :: string
  limit_blocks :: nat
  revocation_policy :: blobstore_revocation_t
  snapshot_policy :: blobstore_snapshot_t
  format :: blobstore_format_t
  bs_fd :: int

record blockblob =
  store :: blobstore
  bb_id :: string
  blocks_path :: string
  device_path :: string
  dm_name :: string
  size_blocks :: nat
  in_use :: "blockblob_status set"
  last_accessed :: int
  last_modified :: int
  snapshot_type :: blobstore_snapshot_t
  bb_fd :: int

text \<open>
  The union \<^verbatim>\<open>source\<close> of a block map entry holds a device path or a pointer to a
  blob handle; a NULL pointer is \<open>None\<close>.
\<close>

datatype blockmap_source = Source_device_path "string option" | Source_blob "blockblob option"

record blockmap =
  relation_type :: blockmap_relation_t
  source_type :: blockmap_source_t
  source :: blockmap_source
  first_block_src :: nat
  first_block_dst :: nat
  len_blocks :: nat

fun source_blob :: "blockmap_source \<Rightarrow> blockblob option" where
  "source_blob (Source_blob b) = b"
| "source_blob (Source_device_path p) = None"

fun source_device_path :: "blockmap_source \<Rightarrow> string option" where
  "source_device_path (Source_device_path p) = p"
| "source_device_path (Source_blob b) = None"

subsection \<open>The process and its operating system\<close>

datatype errno_t =
    E_ZERO | ENOENT | ENOMEM | EACCES | EEXIST | EINVAL | ENOSPC | EAGAIN
  | EISDIR | ENOTDIR | ENOTEMPTY | EBADF

datatype l_type_t = F_RDLCK | F_WRLCK

datatype o_flag = O_RDONLY | O_RDWR | O_CREAT | O_EXCL

text \<open>
  The state of a \<^verbatim>\<open>pthread_rwlock_t\<close>: free, held by a number of readers, or held
  by one writer.
\<close>

datatype pthread_rwlock_t = RW_FREE | RW_READERS nat | RW_WRITER

record blobstore_filelock =
  fl_path :: string
  fl_type :: l_type_t
  refs :: int
  next_fd :: nat
  fd :: "int list"
  fd_status :: "int list"
  rw_lock :: pthread_rwlock_t

text \<open>
  A file system node: a regular file with its bytes and its modification time, a
  directory, or a block device. The file system is an association list from path
  strings to nodes, in directory-listing order. The process may do everything the file
  system's shape allows (no permission failures).
\<close>

datatype node = Reg string int | Dir | Blk

text \<open>Calls of the external helpers (diskutil, dmsetup), in the order they were made.\<close>

datatype helper_call =
    DISKUTIL_INIT
  | DISKUTIL_LOOP string
  | DISKUTIL_UNLOOP string
  | DISKUTIL_DD2 "string option" string nat nat nat nat
  | DMSETUP_CREATE string string
  | DMSETUP_REMOVE string

record world =
  blobstore_errno :: blobstore_error_t
  do_print_errors :: bool
  errno :: errno_t
  locks_list :: "blobstore_filelock list"
  fs :: "(string \<times> node) list"
  open_fds :: "(int \<times> string) list"
  foreign_locks :: "(string \<times> l_type_t) list"
  now :: int
  helper_calls :: "helper_call list"
  helper_ok :: "helper_call \<Rightarrow> bool"
  loop_device :: "string \<Rightarrow> string"
  random_id :: "int \<Rightarrow> string"
  qsort :: "(blockblob \<Rightarrow> blockblob \<Rightarrow> int) \<Rightarrow> blockblob list \<Rightarrow> blockblob list"

text \<open>
  \<open>blobstore_errno\<close> is the thread-local \<^verbatim>\<open>_blobstore_errno\<close>, \<open>errno\<close> the C library's,
  \<open>locks_list\<close> the process-global list of lock entries. \<open>open_fds\<close> maps the open
  file descriptors of the process to their paths; \<open>foreign_locks\<close> are the advisory locks
  other processes hold; \<open>now\<close> is the clock in microseconds. The last four fields are what
  the code cannot decide: whether an external helper succeeds, which loop device
  \<^verbatim>\<open>diskutil_loop\<close> hands out, the random identifier of \<^verbatim>\<open>gen_id\<close>, and the C library's
  \<^verbatim>\<open>qsort\<close>.
\<close>

definition err :: "blobstore_error_t \<Rightarrow> world \<Rightarrow> world" where
  "err e w = w\<lparr>blobstore_errno := e\<rparr>"

definition err_on :: "world \<Rightarrow> world" where
  "err_on w = w\<lparr>do_print_errors := True\<rparr>"

definition err_off :: "world \<Rightarrow> world" where
  "err_off w = w\<lparr>do_print_errors := False\<rparr>"

definition propagate_system_errno :: "blobstore_error_t \<Rightarrow> world \<Rightarrow> world" where
  "propagate_system_errno default_errno w =
     err (case errno w of
            ENOENT \<Rightarrow> BLOBSTORE_ERROR_NOENT
          | ENOMEM \<Rightarrow> BLOBSTORE_ERROR_NOMEM
          | EACCES \<Rightarrow> BLOBSTORE_ERROR_ACCES
          | EEXIST \<Rightarrow> BLOBSTORE_ERROR_EXIST
          | EINVAL \<Rightarrow> BLOBSTORE_ERROR_INVAL
          | ENOSPC \<Rightarrow> BLOBSTORE_ERROR_NOSPC
          | EAGAIN \<Rightarrow> BLOBSTORE_ERROR_AGAIN
          | _ \<Rightarrow> default_errno) w"

definition gen_id :: "world \<Rightarrow> string" where
  "gen_id w = random_id w (now w)"

definition time_usec :: "world \<Rightarrow> int" where
  "time_usec w = now w"

definition usleep :: "int \<Rightarrow> world \<Rightarrow> world" where
  "usleep n w = w\<lparr>now := now w + n\<rparr>"

subsection \<open>System calls on the file system\<close>

definition parent_dir :: "string \<Rightarrow> string" where
  "parent_dir p = rev (drop 1 (dropWhile (\<lambda>c. c \<noteq> CHR ''/'') (rev p)))"

definition is_dir :: "(string \<times> node) list \<Rightarrow> string \<Rightarrow> bool" where
  "is_dir f p = (p = [] \<or> map_of f p = Some Dir)"

definition starts_with :: "string \<Rightarrow> string \<Rightarrow> bool" where
  "starts_with q p = (take (length q) p = q)"

definition dir_empty :: "(string \<times> node) list \<Rightarrow> string \<Rightarrow> bool" where
  "dir_empty f p = list_all (\<lambda>(k, n). \<not> starts_with (p @ ''/'') k) f"

definition fresh_fd :: "(int \<times> string) list \<Rightarrow> int" where
  "fresh_fd fds = hd (filter (\<lambda>d. d \<notin> set (map fst fds)) (map int [0 ..< Suc (length fds)]))"

text \<open>
  \<^verbatim>\<open>open(path, o_flags, mode)\<close>: the descriptor, or -1 with \<open>errno\<close> set. The empty
  path names nothing, here and in the calls below.
\<close>

definition sys_open :: "string \<Rightarrow> o_flag set \<Rightarrow> world \<Rightarrow> int \<times> world" where
  "sys_open p o_flags w =
     (if p = [] then (- 1, w\<lparr>errno := ENOENT\<rparr>) else
      case map_of (fs w) p of
        Some n \<Rightarrow>
          if O_CREAT \<in> o_flags \<and> O_EXCL \<in> o_flags then (- 1, w\<lparr>errno := EEXIST\<rparr>)
          else if n = Dir \<and> O_RDWR \<in> o_flags then (- 1, w\<lparr>errno := EISDIR\<rparr>)
          else (fresh_fd (open_fds w), w\<lparr>open_fds := (fresh_fd (open_fds w), p) # open_fds w\<rparr>)
      | None \<Rightarrow>
          if O_CREAT \<in> o_flags \<and> is_dir (fs w) (parent_dir p)
          then (fresh_fd (open_fds w),
                w\<lparr>fs := fs w @ [(p, Reg [] (now w))],
                  open_fds := (fresh_fd (open_fds w), p) # open_fds w\<rparr>)
          else (- 1, w\<lparr>errno := ENOENT\<rparr>))"

definition sys_close :: "int \<Rightarrow> world \<Rightarrow> world" where
  "sys_close d w = w\<lparr>open_fds := filter (\<lambda>(k, p). k \<noteq> d) (open_fds w)\<rparr>"

text \<open>
  \<^verbatim>\<open>fcntl(fd, F_SETLK, file_lock(l_type, SEEK_SET))\<close>: fails with \<open>EAGAIN\<close> when another
  process holds a conflicting lock on the file, with \<open>EBADF\<close> on a descriptor that is not
  open.
\<close>

definition fcntl_setlk :: "int \<Rightarrow> l_type_t \<Rightarrow> world \<Rightarrow> bool \<times> world" where
  "fcntl_setlk d lt w =
     (case map_of (open_fds w) d of
        None \<Rightarrow> (False, w\<lparr>errno := EBADF\<rparr>)
      | Some p \<Rightarrow>
          if list_ex (\<lambda>(q, t). q = p \<and> (lt = F_WRLCK \<or> t = F_WRLCK)) (foreign_locks w)
          then (False, w\<lparr>errno := EAGAIN\<rparr>)
          else (True, w))"

text \<open>\<^verbatim>\<open>unlink\<close> removes a node that is not a directory.\<close>

definition sys_unlink :: "string \<Rightarrow> world \<Rightarrow> bool \<times> world" where
  "sys_unlink p w =
     (if p = [] then (False, w\<lparr>errno := ENOENT\<rparr>) else
      case map_of (fs w) p of
        None \<Rightarrow> (False, w\<lparr>errno := ENOENT\<rparr>)
      | Some Dir \<Rightarrow> (False, w\<lparr>errno := EISDIR\<rparr>)
      | Some n \<Rightarrow> (True, w\<lparr>fs := AList.delete p (fs w)\<rparr>))"

text \<open>\<^verbatim>\<open>rmdir\<close> removes an empty directory.\<close>

definition sys_rmdir :: "string \<Rightarrow> world \<Rightarrow> bool \<times> world" where
  "sys_rmdir p w =
     (if p = [] then (False, w\<lparr>errno := ENOENT\<rparr>) else
      case map_of (fs w) p of
        None \<Rightarrow> (False, w\<lparr>errno := ENOENT\<rparr>)
      | Some Dir \<Rightarrow>
          if dir_empty (fs w) p then (True, w\<lparr>fs := AList.delete p (fs w)\<rparr>)
          else (False, w\<lparr>errno := ENOTEMPTY\<rparr>)
      | Some n \<Rightarrow> (False, w\<lparr>errno := ENOTDIR\<rparr>))"

definition sys_mkdir :: "string \<Rightarrow> world \<Rightarrow> bool \<times> world" where
  "sys_mkdir p w =
     (if p = [] then (False, w\<lparr>errno := ENOENT\<rparr>)
      else if map_of (fs w) p \<noteq> None then (False, w\<lparr>errno := EEXIST\<rparr>)
      else if is_dir (fs w) (parent_dir p) then (True, w\<lparr>fs := fs w @ [(p, Dir)]\<rparr>)
      else (False, w\<lparr>errno := ENOENT\<rparr>))"

text \<open>\<^verbatim>\<open>fopen(path, "w")\<close> followed by writing \<open>s\<close> and \<^verbatim>\<open>fclose\<close>.\<close>

definition sys_write_file :: "string \<Rightarrow> string \<Rightarrow> world \<Rightarrow> bool \<times> world" where
  "sys_write_file p s w =
     (if p = [] then (False, w\<lparr>errno := ENOENT\<rparr>) else
      case map_of (fs w) p of
        Some (Reg old t) \<Rightarrow> (True, w\<lparr>fs := AList.update p (Reg s (now w)) (fs w)\<rparr>)
      | Some Dir \<Rightarrow> (False, w\<lparr>errno := EISDIR\<rparr>)
      | Some Blk \<Rightarrow> (True, w)
      | None \<Rightarrow>
          if is_dir (fs w) (parent_dir p)
          then (True, w\<lparr>fs := AList.update p (Reg s (now w)) (fs w)\<rparr>)
          else (False, w\<lparr>errno := ENOENT\<rparr>))"

subsection \<open>The file lock registry\<close>

fun upd_first :: "('a \<Rightarrow> bool) \<Rightarrow> ('a \<Rightarrow> 'a) \<Rightarrow> 'a list \<Rightarrow> 'a list" where
  "upd_first P f [] = []"
| "upd_first P f (x # xs) = (if P x then f x # xs else x # upd_first P f xs)"

fun del_first :: "('a \<Rightarrow> bool) \<Rightarrow> 'a list \<Rightarrow> 'a list" where
  "del_first P [] = []"
| "del_first P (x # xs) = (if P x then xs else x # del_first P xs)"

text \<open>The entry that \<^verbatim>\<open>calloc\<close> and the initialisation in \<^verbatim>\<open>open_and_lock\<close> give.\<close>

definition calloc_filelock :: "string \<Rightarrow> l_type_t \<Rightarrow> blobstore_filelock" where
  "calloc_filelock p lt =
     \<lparr>fl_path = p, fl_type = lt, refs = 0, next_fd = 0,
      fd = replicate BLOBSTORE_MAX_CONCURRENT 0,
      fd_status = replicate BLOBSTORE_MAX_CONCURRENT 0,
      rw_lock = RW_FREE\<rparr>"

definition close_and_free_filelock :: "blobstore_filelock \<Rightarrow> world \<Rightarrow> world" where
  "close_and_free_filelock l w = fold sys_close (take (next_fd l) (fd l)) w"

text \<open>The first slot below \<open>next_fd\<close> that holds the descriptor.\<close>

definition fd_index :: "int \<Rightarrow> blobstore_filelock \<Rightarrow> nat option" where
  "fd_index d l = List.find (\<lambda>i. fd l ! i = d) [0 ..< next_fd l]"

definition has_fd :: "int \<Rightarrow> blobstore_filelock \<Rightarrow> bool" where
  "has_fd d l = (fd_index d l \<noteq> None)"

text \<open>
  \<^verbatim>\<open>close_and_unlock\<close>. The scan of the list stops at the first entry with the
  descriptor in its table; each entry it looks at must pass the \<^verbatim>\<open>assert\<close> on
  \<open>next_fd\<close>.
\<close>

definition asserts_hold :: "int \<Rightarrow> blobstore_filelock list \<Rightarrow> bool" where
  "asserts_hold d ls =
     list_all (\<lambda>l. next_fd l \<le> BLOBSTORE_MAX_CONCURRENT)
       (takeWhile (\<lambda>l. \<not> has_fd d l) ls @ take 1 (dropWhile (\<lambda>l. \<not> has_fd d l) ls))"

definition close_and_unlock :: "int \<Rightarrow> world \<Rightarrow> (int \<times> world) option" where
  "close_and_unlock d w =
     (if d < 0 then Some (- 1, err BLOBSTORE_ERROR_BADF w)
      else if \<not> asserts_hold d (locks_list w) then None
      else
        (case List.find (has_fd d) (locks_list w) of
           Some l \<Rightarrow>
             (case fd_index d l of
                None \<Rightarrow> None
              | Some index \<Rightarrow>
                  if fd_status l ! index = 1 then
                    (if refs l - 1 = 0
                     then Some (0, close_and_free_filelock l
                                     (w\<lparr>locks_list := del_first (has_fd d) (locks_list w)\<rparr>))
                     else Some (0, w\<lparr>locks_list :=
                                      upd_first (has_fd d)
                                        (\<lambda>l. l\<lparr>fd_status := (fd_status l)[index := 0],
                                                refs := refs l - 1\<rparr>)
                                        (locks_list w)\<rparr>))
                  else Some (- 1, err BLOBSTORE_ERROR_BADF w))
         | None \<Rightarrow> Some (- 1, err BLOBSTORE_ERROR_BADF w)))"

text \<open>The first part of \<^verbatim>\<open>open_and_lock\<close>: the lock type and the flags for \<^verbatim>\<open>open\<close>.\<close>

definition lock_type_of_flags :: "blobstore_flag set \<Rightarrow> (l_type_t \<times> o_flag set) option" where
  "lock_type_of_flags flags =
     (if BLOBSTORE_FLAG_RDONLY \<in> flags then Some (F_RDLCK, {O_RDONLY})
      else if BLOBSTORE_FLAG_RDWR \<in> flags \<or> BLOBSTORE_FLAG_CREAT \<in> flags then
        Some (F_WRLCK,
              {O_RDWR} \<union>
              (if BLOBSTORE_FLAG_CREAT \<in> flags
               then {O_CREAT} \<union> (if BLOBSTORE_FLAG_EXCL \<in> flags then {O_EXCL} else {})
               else {}))
      else None)"

definition pthread_rwlock_try :: "l_type_t \<Rightarrow> pthread_rwlock_t \<Rightarrow> pthread_rwlock_t option" where
  "pthread_rwlock_try lt r =
     (case (lt, r) of
        (F_WRLCK, RW_FREE) \<Rightarrow> Some RW_WRITER
      | (F_RDLCK, RW_FREE) \<Rightarrow> Some (RW_READERS 1)
      | (F_RDLCK, RW_READERS n) \<Rightarrow> Some (RW_READERS (Suc n))
      | _ \<Rightarrow> None)"

definition pthread_rwlock_unlock :: "pthread_rwlock_t \<Rightarrow> pthread_rwlock_t" where
  "pthread_rwlock_unlock r =
     (case r of
        RW_READERS (Suc (Suc n)) \<Rightarrow> RW_READERS (Suc n)
      | _ \<Rightarrow> RW_FREE)"

definition the_lock :: "string \<Rightarrow> world \<Rightarrow> blobstore_filelock option" where
  "the_lock p w = List.find (\<lambda>l. fl_path l = p) (locks_list w)"

definition upd_lock :: "string \<Rightarrow> (blobstore_filelock \<Rightarrow> blobstore_filelock) \<Rightarrow> world \<Rightarrow> world" where
  "upd_lock p f w = w\<lparr>locks_list := upd_first (\<lambda>l. fl_path l = p) f (locks_list w)\<rparr>"

text \<open>
  The wait loop of \<^verbatim>\<open>open_and_lock\<close>. The result is whether both locks were obtained
  and the value of \<^verbatim>\<open>pthread_rwlock_acquired\<close>. With \<open>BLOBSTORE_NO_TIMEOUT\<close> the loop
  need not end.
\<close>

partial_function (option) open_and_lock_wait ::
  "string \<Rightarrow> l_type_t \<Rightarrow> int \<Rightarrow> int \<Rightarrow> int \<Rightarrow> bool \<Rightarrow> world \<Rightarrow> ((bool \<times> bool) \<times> world) option"
where
  "open_and_lock_wait p lt d timeout_usec deadline acquired w =
     (case Option.bind (the_lock p w) (\<lambda>l. pthread_rwlock_try lt (rw_lock l)) of
        Some r \<Rightarrow>
          (case fcntl_setlk d lt (upd_lock p (\<lambda>l. l\<lparr>rw_lock := r\<rparr>) w\<lparr>errno := E_ZERO\<rparr>) of
             (locked, w2) \<Rightarrow>
               if locked then Some ((True, True), w2)
               else if errno w2 \<noteq> EAGAIN
               then Some ((False, True), propagate_system_errno BLOBSTORE_ERROR_UNKNOWN w2)
               else if timeout_usec \<noteq> BLOBSTORE_NO_TIMEOUT \<and> time_usec w2 \<ge> deadline
               then Some ((False, True), err BLOBSTORE_ERROR_AGAIN w2)
               else open_and_lock_wait p lt d timeout_usec deadline True
                      (usleep BLOBSTORE_SLEEP_INTERVAL_MS w2))
      | None \<Rightarrow>
          if timeout_usec \<noteq> BLOBSTORE_NO_TIMEOUT \<and> time_usec w \<ge> deadline
          then Some ((False, acquired), err BLOBSTORE_ERROR_AGAIN w)
          else open_and_lock_wait p lt d timeout_usec deadline acquired
                 (usleep BLOBSTORE_SLEEP_INTERVAL_MS w))"

declare open_and_lock_wait.simps [code]

text \<open>
  The label \<^verbatim>\<open>error\<close> of \<^verbatim>\<open>open_and_lock\<close>. \<open>existed\<close> says that the entry was found in
  the list rather than appended: then \<^verbatim>\<open>next_ptr\<close> points at the entry's own \<^verbatim>\<open>next\<close>
  field and \<^verbatim>\<open>* next_ptr = l->next\<close> leaves the list as it is.
\<close>

definition open_and_lock_error :: "string \<Rightarrow> bool \<Rightarrow> bool \<Rightarrow> int \<Rightarrow> world \<Rightarrow> world" where
  "open_and_lock_error p existed acquired d w =
     (let w1 = (if acquired then upd_lock p (\<lambda>l. l\<lparr>rw_lock := pthread_rwlock_unlock (rw_lock l)\<rparr>) w
                else w);
          w2 = (if d \<ge> 0 then sys_close d w1 else w1);
          w3 = upd_lock p (\<lambda>l. l\<lparr>refs := refs l - 1\<rparr>) w2
      in case the_lock p w3 of
           None \<Rightarrow> w3
         | Some l \<Rightarrow>
             if refs l = 0
             then close_and_free_filelock l
                    (if existed then w3
                     else w3\<lparr>locks_list := del_first (\<lambda>l. fl_path l = p) (locks_list w3)\<rparr>)
             else w3)"

definition open_and_lock ::
  "string \<Rightarrow> blobstore_flag set \<Rightarrow> int \<Rightarrow> nat \<Rightarrow> world \<Rightarrow> (int \<times> world) option"
where
  "open_and_lock p flags timeout_usec mode w =
     (let deadline = time_usec w + timeout_usec in
      case lock_type_of_flags flags of
        None \<Rightarrow> Some (- 1, err BLOBSTORE_ERROR_INVAL w)
      | Some (lt, o_flags) \<Rightarrow>
          let existed = (the_lock p w \<noteq> None);
              w1 = (if existed then w
                    else w\<lparr>locks_list := locks_list w @ [calloc_filelock p lt]\<rparr>);
              l = (case the_lock p w of Some l \<Rightarrow> l | None \<Rightarrow> calloc_filelock p lt)
          in
            if next_fd l = BLOBSTORE_MAX_CONCURRENT then Some (- 1, err BLOBSTORE_ERROR_MFILE w1)
            else if fl_type l \<noteq> lt then Some (- 1, err BLOBSTORE_ERROR_INVAL w1)
            else
              (case sys_open p o_flags (upd_lock p (\<lambda>l. l\<lparr>refs := refs l + 1\<rparr>) w1) of
                 (d, w2) \<Rightarrow>
                   if d = - 1
                   then Some (- 1, open_and_lock_error p existed False d
                                     (propagate_system_errno BLOBSTORE_ERROR_UNKNOWN w2))
                   else
                     (case open_and_lock_wait p lt d timeout_usec deadline False w2 of
                        None \<Rightarrow> None
                      | Some ((locked, acquired), w3) \<Rightarrow>
                          if locked
                          then Some (d, upd_lock p
                                          (\<lambda>l. l\<lparr>fd := (fd l)[next_fd l := d],
                                                  fd_status := (fd_status l)[next_fd l := 1],
                                                  next_fd := next_fd l + 1\<rparr>) w3)
                          else Some (- 1, open_and_lock_error p existed acquired d w3))))"

subsection \<open>Store descriptor\<close>

text \<open>
  \<^verbatim>\<open>fd_to_buf\<close> on an open descriptor: the size read, or -1. A read of a directory or
  of a file larger than the buffer does not return \<^verbatim>\<open>st_size\<close> bytes.
\<close>

definition fd_to_buf :: "int \<Rightarrow> nat \<Rightarrow> world \<Rightarrow> (int \<times> string) \<times> world" where
  "fd_to_buf d size_buf w =
     (case Option.bind (map_of (open_fds w) d) (map_of (fs w)) of
        None \<Rightarrow> ((- 1, []), err BLOBSTORE_ERROR_ACCES w)
      | Some (Reg s t) \<Rightarrow>
          if length s \<le> size_buf then ((int (length s), s), w)
          else ((- 1, take size_buf s), err BLOBSTORE_ERROR_NOENT w)
      | Some n \<Rightarrow> ((- 1, []), err BLOBSTORE_ERROR_NOENT w))"

fun strstr :: "string \<Rightarrow> string \<Rightarrow> string option" where
  "strstr [] k = (if k = [] then Some [] else None)"
| "strstr (c # cs) k = (if starts_with k (c # cs) then Some (c # cs) else strstr cs k)"

definition get_val :: "string \<Rightarrow> string \<Rightarrow> string option" where
  "get_val buf k =
     (case strstr buf (k @ '': '') of
        None \<Rightarrow> None
      | Some val_begin \<Rightarrow>
          Some (takeWhile (\<lambda>c. c \<noteq> CHR 0x0A) (drop (length (k @ '': '')) val_begin)))"

text \<open>Decimal digits, for \<^verbatim>\<open>%lld\<close> and \<^verbatim>\<open>%d\<close>, and \<^verbatim>\<open>strtoll\<close> in base 10.\<close>

definition digit_char :: "nat \<Rightarrow> char" where
  "digit_char n = char_of (48 + n)"

fun dec_nat :: "nat \<Rightarrow> string" where
  "dec_nat n = (if n < 10 then [digit_char n] else dec_nat (n div 10) @ [digit_char (n mod 10)])"

declare dec_nat.simps [simp del]

definition dec_int :: "int \<Rightarrow> string" where
  "dec_int i = (if i < 0 then CHR ''-'' # dec_nat (nat (- i)) else dec_nat (nat i))"

definition c_isdigit :: "char \<Rightarrow> bool" where
  "c_isdigit c = (48 \<le> (of_char c :: nat) \<and> (of_char c :: nat) \<le> 57)"

definition c_isspace :: "char \<Rightarrow> bool" where
  "c_isspace c =
     ((of_char c :: nat) = 32 \<or> (9 \<le> (of_char c :: nat) \<and> (of_char c :: nat) \<le> 13))"

definition digits_value :: "string \<Rightarrow> int" where
  "digits_value s = foldl (\<lambda>a c. 10 * a + (int (of_char c :: nat) - 48)) 0 s"

text \<open>The value and whether it is out of the range of \<^verbatim>\<open>long long\<close> (\<^verbatim>\<open>ERANGE\<close>).\<close>

definition strtoll :: "string \<Rightarrow> int \<times> bool" where
  "strtoll s =
     (let s1 = dropWhile c_isspace s;
          neg = (s1 \<noteq> [] \<and> hd s1 = CHR ''-'');
          s2 = (if s1 \<noteq> [] \<and> (hd s1 = CHR ''-'' \<or> hd s1 = CHR ''+'') then tl s1 else s1);
          v = digits_value (takeWhile c_isdigit s2);
          r = (if neg then - v else v)
      in if r < - (2 ^ 63) then (- (2 ^ 63), True)
         else if r > 2 ^ 63 - 1 then (2 ^ 63 - 1, True)
         else (r, False))"

text \<open>
  Modelled from the spec: the numbers behind the policy enumerations come from the
  missing header; they are taken in the order of declaration, the \<open>ANY\<close> value first.
  A number that names no policy reads as \<open>ANY\<close>.
\<close>

fun revocation_of_int :: "int \<Rightarrow> blobstore_revocation_t" where
  "revocation_of_int i =
     (if i = 1 then BLOBSTORE_REVOCATION_NONE
      else if i = 2 then BLOBSTORE_REVOCATION_LRU else BLOBSTORE_REVOCATION_ANY)"

fun int_of_revocation :: "blobstore_revocation_t \<Rightarrow> int" where
  "int_of_revocation BLOBSTORE_REVOCATION_ANY = 0"
| "int_of_revocation BLOBSTORE_REVOCATION_NONE = 1"
| "int_of_revocation BLOBSTORE_REVOCATION_LRU = 2"

fun snapshot_of_int :: "int \<Rightarrow> blobstore_snapshot_t" where
  "snapshot_of_int i =
     (if i = 1 then BLOBSTORE_SNAPSHOT_NONE
      else if i = 2 then BLOBSTORE_SNAPSHOT_DM else BLOBSTORE_SNAPSHOT_ANY)"

fun int_of_snapshot :: "blobstore_snapshot_t \<Rightarrow> int" where
  "int_of_snapshot BLOBSTORE_SNAPSHOT_ANY = 0"
| "int_of_snapshot BLOBSTORE_SNAPSHOT_NONE = 1"
| "int_of_snapshot BLOBSTORE_SNAPSHOT_DM = 2"

fun format_of_int :: "int \<Rightarrow> blobstore_format_t" where
  "format_of_int i =
     (if i = 1 then BLOBSTORE_FORMAT_FILES
      else if i = 2 then BLOBSTORE_FORMAT_DIRECTORY else BLOBSTORE_FORMAT_ANY)"

fun int_of_format :: "blobstore_format_t \<Rightarrow> int" where
  "int_of_format BLOBSTORE_FORMAT_ANY = 0"
| "int_of_format BLOBSTORE_FORMAT_FILES = 1"
| "int_of_format BLOBSTORE_FORMAT_DIRECTORY = 2"

definition read_store_metadata :: "blobstore \<Rightarrow> world \<Rightarrow> (int \<times> blobstore) \<times> world" where
  "read_store_metadata bs w =
     (case fd_to_buf (bs_fd bs) 1024 w of
        ((sz, buf), w1) \<Rightarrow>
          if sz = - 1 then ((- 1, bs), w1)
          else if sz < 30 then ((- 1, bs), err BLOBSTORE_ERROR_NOENT w1)
          else
            (case get_val buf ''id'' of
               None \<Rightarrow> ((- 1, bs), w1)
             | Some v_id \<Rightarrow>
            (case get_val buf ''limit'' of
               None \<Rightarrow> ((- 1, bs\<lparr>bs_id := v_id\<rparr>), w1)
             | Some v_limit \<Rightarrow>
                 let bs1 = bs\<lparr>bs_id := v_id, limit_blocks := nat (fst (strtoll v_limit) mod 2 ^ 64)\<rparr> in
                 if snd (strtoll v_limit) then ((- 1, bs1), err BLOBSTORE_ERROR_NOENT w1)
                 else
            (case get_val buf ''revocation'' of
               None \<Rightarrow> ((- 1, bs1), w1)
             | Some v_rev \<Rightarrow>
                 let bs2 = bs1\<lparr>revocation_policy := revocation_of_int (fst (strtoll v_rev))\<rparr> in
                 if snd (strtoll v_rev) then ((- 1, bs2), err BLOBSTORE_ERROR_NOENT w1)
                 else
            (case get_val buf ''snapshot'' of
               None \<Rightarrow> ((- 1, bs2), w1)
             | Some v_snap \<Rightarrow>
                 let bs3 = bs2\<lparr>snapshot_policy := snapshot_of_int (fst (strtoll v_snap))\<rparr> in
                 if snd (strtoll v_snap) then ((- 1, bs3), err BLOBSTORE_ERROR_NOENT w1)
                 else
            (case get_val buf ''format'' of
               None \<Rightarrow> ((- 1, bs3), w1)
             | Some v_fmt \<Rightarrow>
                 let bs4 = bs3\<lparr>format := format_of_int (fst (strtoll v_fmt))\<rparr> in
                 if snd (strtoll v_fmt) then ((- 1, bs4), err BLOBSTORE_ERROR_NOENT w1)
                 else ((0, bs4), w1)))))))"

text \<open>Conversion of a \<^verbatim>\<open>long long\<close> to \<^verbatim>\<open>unsigned long long\<close>, and back.\<close>

definition to_ull :: "int \<Rightarrow> int" where
  "to_ull x = x mod 2 ^ 64"

definition to_ll :: "int \<Rightarrow> int" where
  "to_ll x = (if x mod 2 ^ 64 < 2 ^ 63 then x mod 2 ^ 64 else x mod 2 ^ 64 - 2 ^ 64)"

text \<open>
  \<^verbatim>\<open>ftruncate\<close> and \<^verbatim>\<open>write\<close> on the descriptor of the descriptor file. The limit, an
  \<^verbatim>\<open>unsigned long long\<close>, is printed with \<^verbatim>\<open>%lld\<close>: as a negative number from \<open>2^63\<close> on.
\<close>

definition write_store_metadata :: "blobstore \<Rightarrow> world \<Rightarrow> int \<times> world" where
  "write_store_metadata bs w =
     (case map_of (open_fds w) (bs_fd bs) of
        None \<Rightarrow> (- 1, err BLOBSTORE_ERROR_NOENT w)
      | Some p \<Rightarrow>
          (case map_of (fs w) p of
             Some (Reg old t) \<Rightarrow>
               (0, w\<lparr>fs := AList.update p
                       (Reg (''id: '' @ bs_id bs @ [CHR 0x0A] @
                             ''limit: '' @ dec_int (to_ll (int (limit_blocks bs))) @ [CHR 0x0A] @
                             ''revocation: '' @ dec_int (int_of_revocation (revocation_policy bs)) @ [CHR 0x0A] @
                             ''snapshot: '' @ dec_int (int_of_snapshot (snapshot_policy bs)) @ [CHR 0x0A] @
                             ''format: '' @ dec_int (int_of_format (format bs)) @ [CHR 0x0A])
                          (now w)) (fs w)\<rparr>)
           | _ \<Rightarrow> (- 1, err BLOBSTORE_ERROR_NOENT w)))"

text \<open>
  \<^verbatim>\<open>blobstore_init\<close> returns what \<^verbatim>\<open>diskutil_init\<close> returns: 0, or, when the helper
  fails, a value that is not 0 (here 1; the callers only test it against 0).
\<close>

definition blobstore_init :: "world \<Rightarrow> int \<times> world" where
  "blobstore_init w =
     (let w1 = w\<lparr>helper_calls := helper_calls w @ [DISKUTIL_INIT]\<rparr>
      in if helper_ok w DISKUTIL_INIT then (0, w1)
         else (1, err BLOBSTORE_ERROR_UNKNOWN w1))"

text \<open>The label \<^verbatim>\<open>free\<close> of \<^verbatim>\<open>blobstore_open\<close>.\<close>

definition blobstore_open_free :: "blobstore \<Rightarrow> world \<Rightarrow> (blobstore option \<times> world) option" where
  "blobstore_open_free bs w =
     (case close_and_unlock (bs_fd bs) w of
        None \<Rightarrow> None
      | Some (r, w1) \<Rightarrow> Some (None, w1))"

definition blobstore_open ::
  "string \<Rightarrow> nat \<Rightarrow> blobstore_format_t \<Rightarrow> blobstore_revocation_t \<Rightarrow> blobstore_snapshot_t \<Rightarrow>
   world \<Rightarrow> (blobstore option \<times> world) option"
where
  "blobstore_open path limit fmt revocation snapshot w =
     (let meta_path = path @ ''/'' @ BLOBSTORE_METADATA_FILE;
          bs0 = \<lparr>bs_id = [], bs_path = path, limit_blocks = 0,
                 revocation_policy = BLOBSTORE_REVOCATION_ANY,
                 snapshot_policy = BLOBSTORE_SNAPSHOT_ANY,
                 format = BLOBSTORE_FORMAT_ANY, bs_fd = 0\<rparr>
      in
      if fst (blobstore_init w) \<noteq> 0 then Some (None, snd (blobstore_init w))
      else
      case open_and_lock meta_path {BLOBSTORE_FLAG_CREAT, BLOBSTORE_FLAG_EXCL} 0 384
             (err_off (snd (blobstore_init w)\<lparr>blobstore_errno := BLOBSTORE_ERROR_OK\<rparr>)) of
        None \<Rightarrow> None
      | Some (d, w1) \<Rightarrow>
          (case (if d \<noteq> - 1
                 then (let bs1 = bs0\<lparr>bs_fd := d, bs_id := gen_id w1, limit_blocks := limit,
                                    revocation_policy :=
                                      (if revocation = BLOBSTORE_REVOCATION_ANY
                                       then BLOBSTORE_REVOCATION_NONE else revocation),
                                    snapshot_policy :=
                                      (if snapshot = BLOBSTORE_SNAPSHOT_ANY
                                       then BLOBSTORE_SNAPSHOT_DM else snapshot),
                                    format :=
                                      (if fmt = BLOBSTORE_FORMAT_ANY
                                       then BLOBSTORE_FORMAT_FILES else fmt)\<rparr>
                       in map_option (\<lambda>(r, w3). (bs1, w3))
                            (close_and_unlock d (snd (write_store_metadata bs1 (err_on w1)))))
                 else Some (bs0\<lparr>bs_fd := d\<rparr>, err_on w1)) of
             None \<Rightarrow> None
           | Some (bs2, w4) \<Rightarrow>
               if blobstore_errno w4 \<noteq> BLOBSTORE_ERROR_OK \<and>
                  blobstore_errno w4 \<noteq> BLOBSTORE_ERROR_EXIST \<and>
                  blobstore_errno w4 \<noteq> BLOBSTORE_ERROR_AGAIN
               then blobstore_open_free bs2 (err (blobstore_errno w4) w4)
               else
                 (case open_and_lock meta_path {BLOBSTORE_FLAG_RDONLY}
                         BLOBSTORE_METADATA_TIMEOUT_MS 0 w4 of
                    None \<Rightarrow> None
                  | Some (d2, w5) \<Rightarrow>
                      if d2 = - 1 then blobstore_open_free (bs2\<lparr>bs_fd := d2\<rparr>) w5
                      else
                        (case read_store_metadata (bs2\<lparr>bs_fd := d2\<rparr>) w5 of
                           ((r, bs3), w6) \<Rightarrow>
                             if r \<noteq> 0 then blobstore_open_free bs3 w6
                             else if limit \<noteq> 0 \<and> limit \<noteq> limit_blocks bs3
                             then blobstore_open_free bs3 (err BLOBSTORE_ERROR_INVAL w6)
                             else if snapshot \<noteq> BLOBSTORE_SNAPSHOT_ANY \<and>
                                     snapshot \<noteq> snapshot_policy bs3
                             then blobstore_open_free bs3 (err BLOBSTORE_ERROR_INVAL w6)
                             else if fmt \<noteq> BLOBSTORE_FORMAT_ANY \<and> fmt \<noteq> format bs3
                             then blobstore_open_free bs3 (err BLOBSTORE_ERROR_INVAL w6)
                             else if revocation \<noteq> BLOBSTORE_REVOCATION_ANY \<and>
                                     revocation \<noteq> revocation_policy bs3
                             then blobstore_open_free bs3 (err BLOBSTORE_ERROR_INVAL w6)
                             else
                               (case close_and_unlock d2 w6 of
                                  None \<Rightarrow> None
                                | Some (r2, w7) \<Rightarrow> Some (Some (bs3\<lparr>bs_fd := - 1\<rparr>), w7))))))"

definition blobstore_close :: "blobstore \<Rightarrow> world \<Rightarrow> int \<times> world" where
  "blobstore_close bs w = (0, w)"

definition blobstore_lock :: "blobstore \<Rightarrow> int \<Rightarrow> world \<Rightarrow> ((int \<times> blobstore) \<times> world) option" where
  "blobstore_lock bs timeout_usec w =
     (case open_and_lock (bs_path bs @ ''/'' @ BLOBSTORE_METADATA_FILE) {BLOBSTORE_FLAG_RDWR}
             timeout_usec 0 w of
        None \<Rightarrow> None
      | Some (d, w1) \<Rightarrow> Some ((d, if d \<noteq> - 1 then bs\<lparr>bs_fd := d\<rparr> else bs), w1))"

definition blobstore_unlock :: "blobstore \<Rightarrow> world \<Rightarrow> ((int \<times> blobstore) \<times> world) option" where
  "blobstore_unlock bs w =
     (case close_and_unlock (bs_fd bs) w of
        None \<Rightarrow> None
      | Some (r, w1) \<Rightarrow> Some ((r, bs\<lparr>bs_fd := - 1\<rparr>), w1))"

definition blobstore_delete :: "blobstore \<Rightarrow> int" where
  "blobstore_delete bs = - 1"

definition blobstore_get_error :: "world \<Rightarrow> blobstore_error_t" where
  "blobstore_get_error w = blobstore_errno w"

subsection \<open>Sidecar paths and the metadata codec\<close>

text \<open>
  \<^verbatim>\<open>set_blockblob_metadata_path\<close>: the return value and the content of the buffer
  \<^verbatim>\<open>path\<close> afterwards; \<open>buf\<close> is its content before (empty for a fresh local buffer).
\<close>

definition set_blockblob_metadata_path ::
  "blockblob_path_t \<Rightarrow> blobstore \<Rightarrow> string \<Rightarrow> string \<Rightarrow> world \<Rightarrow> (int \<times> string) \<times> world"
where
  "set_blockblob_metadata_path path_t bs blob_id buf w =
     (let base = bs_path bs @ ''/'' @ blob_id;
          name = blobstore_metadata_suffixes path_t
      in if path_t = BLOCKBLOB_PATH_NONE then ((- 1, buf), err BLOBSTORE_ERROR_INVAL w)
         else
           (case format bs of
              BLOBSTORE_FORMAT_FILES \<Rightarrow> ((0, base @ ''.'' @ name), w)
            | BLOBSTORE_FORMAT_DIRECTORY \<Rightarrow> ((0, base @ ''/'' @ name), w)
            | BLOBSTORE_FORMAT_ANY \<Rightarrow> ((- 1, buf), err BLOBSTORE_ERROR_INVAL w)))"

definition write_blockblob_metadata_path ::
  "blockblob_path_t \<Rightarrow> blobstore \<Rightarrow> string \<Rightarrow> string \<Rightarrow> world \<Rightarrow> int \<times> world"
where
  "write_blockblob_metadata_path path_t bs blob_id str w =
     (case set_blockblob_metadata_path path_t bs blob_id [] w of
        ((r, path), w1) \<Rightarrow>
          (case sys_write_file path str w1 of
             (written, w2) \<Rightarrow>
               if written then (0, w2)
               else (- 1, propagate_system_errno BLOBSTORE_ERROR_UNKNOWN w2)))"

text \<open>
  \<^verbatim>\<open>read_blockblob_metadata_path\<close>: the return value and the content of the buffer
  \<^verbatim>\<open>str\<close> afterwards; \<open>buf\<close> is its content before.
\<close>

definition read_blockblob_metadata_path ::
  "blockblob_path_t \<Rightarrow> blobstore \<Rightarrow> string \<Rightarrow> string \<Rightarrow> nat \<Rightarrow> world \<Rightarrow> (int \<times> string) \<times> world"
where
  "read_blockblob_metadata_path path_t bs blob_id buf str_size w =
     (case set_blockblob_metadata_path path_t bs blob_id [] w of
        ((r, path), w1) \<Rightarrow>
          (case sys_open path {O_RDONLY} w1 of
             (d, w2) \<Rightarrow>
               if d = - 1 then ((- 1, buf), propagate_system_errno BLOBSTORE_ERROR_UNKNOWN w2)
               else
                 (case fd_to_buf d str_size w2 of
                    ((sz, data), w3) \<Rightarrow>
                      if sz < 1
                      then ((- 1, if data = [] then buf else data),
                            err BLOBSTORE_ERROR_NOENT (sys_close d w3))
                      else ((sz, data), sys_close d w3))))"

definition write_array_blockblob_metadata_path ::
  "blockblob_path_t \<Rightarrow> blobstore \<Rightarrow> string \<Rightarrow> string list \<Rightarrow> world \<Rightarrow> int \<times> world"
where
  "write_array_blockblob_metadata_path path_t bs blob_id array w =
     (case set_blockblob_metadata_path path_t bs blob_id [] w of
        ((r, path), w1) \<Rightarrow>
          (case sys_write_file path (concat (map (\<lambda>e. e @ [CHR 0x0A]) array)) w1 of
             (written, w2) \<Rightarrow>
               if written then (0, w2)
               else (- 1, propagate_system_errno BLOBSTORE_ERROR_UNKNOWN w2)))"

text \<open>
  \<^verbatim>\<open>getline\<close> on the rest of a stream: the line with its newline, if it has one, and
  what is left; \<open>None\<close> at the end of the file.
\<close>

definition getline :: "string \<Rightarrow> (string \<times> string) option" where
  "getline s =
     (if s = [] then None
      else (case dropWhile (\<lambda>c. c \<noteq> CHR 0x0A) s of
              [] \<Rightarrow> Some (s, [])
            | nl # rest \<Rightarrow> Some (takeWhile (\<lambda>c. c \<noteq> CHR 0x0A) s @ [nl], rest)))"

definition chop_newline :: "string \<Rightarrow> string" where
  "chop_newline line = (if line \<noteq> [] \<and> last line = CHR 0x0A then butlast line else line)"

function read_lines :: "string \<Rightarrow> string list" where
  "read_lines s =
     (case getline s of
        None \<Rightarrow> []
      | Some (line, rest) \<Rightarrow> chop_newline line # read_lines rest)"
  by pat_completeness auto
termination
proof (relation "measure length")
  show "wf (measure length)" by simp
next
  fix s :: string and x2 line rest
  assume a: "getline s = Some x2" "(line, rest) = x2"
  then have g: "getline s = Some (line, rest)" by simp
  then have ne: "s \<noteq> []" by (auto simp: getline_def)
  show "(rest, s) \<in> measure length"
  proof (cases "dropWhile (\<lambda>c. c \<noteq> CHR 0x0A) s")
    case Nil
    with g ne have "rest = []" by (simp add: getline_def)
    with ne show ?thesis by simp
  next
    case (Cons nl r)
    with g ne have "rest = r" by (simp add: getline_def)
    moreover have "length (dropWhile (\<lambda>c. c \<noteq> CHR 0x0A) s) \<le> length s"
      by (rule length_dropWhile_le)
    ultimately show ?thesis using Cons by simp
  qed
qed

declare read_lines.simps [simp del]

definition read_array_blockblob_metadata_path ::
  "blockblob_path_t \<Rightarrow> blobstore \<Rightarrow> string \<Rightarrow> world \<Rightarrow> (int \<times> string list) \<times> world"
where
  "read_array_blockblob_metadata_path path_t bs blob_id w =
     (case set_blockblob_metadata_path path_t bs blob_id [] w of
        ((r, path), w1) \<Rightarrow>
          (case map_of (fs w1) path of
             None \<Rightarrow> ((0, []), w1\<lparr>errno := ENOENT\<rparr>)
           | Some (Reg s t) \<Rightarrow> ((0, read_lines s), w1)
           | Some Dir \<Rightarrow>
               ((- 1, []), propagate_system_errno BLOBSTORE_ERROR_UNKNOWN (w1\<lparr>errno := EISDIR\<rparr>))
           | Some Blk \<Rightarrow> ((0, []), w1)))"

definition update_entry_blockblob_metadata_path ::
  "blockblob_path_t \<Rightarrow> blobstore \<Rightarrow> string \<Rightarrow> string \<Rightarrow> bool \<Rightarrow> world \<Rightarrow> int \<times> world"
where
  "update_entry_blockblob_metadata_path path_t bs blob_id entry removing w =
     (case read_array_blockblob_metadata_path path_t bs blob_id w of
        ((r, entries), w1) \<Rightarrow>
          if r = - 1 then (- 1, w1)
          else
            (case List.find (\<lambda>j. entries ! j = entry) [0 ..< length entries] of
               None \<Rightarrow>
                 if \<not> removing
                 then write_array_blockblob_metadata_path path_t bs blob_id (entries @ [entry]) w1
                 else (0, w1)
             | Some found \<Rightarrow>
                 if removing
                 then write_array_blockblob_metadata_path path_t bs blob_id
                        (if length entries - 1 \<noteq> 0 \<and> found \<noteq> length entries - 1
                         then (butlast entries)[found := last entries]
                         else butlast entries) w1
                 else (0, w1)))"

text \<open>
  \<^verbatim>\<open>typeof_blockblob_metadata_path\<close>: the kind of sidecar a path names and the blob
  id; \<open>None\<close> when the \<^verbatim>\<open>assert\<close> on the path fails.
\<close>

definition all_path_types :: "blockblob_path_t list" where
  "all_path_types =
     [BLOCKBLOB_PATH_BLOCKS, BLOCKBLOB_PATH_DM, BLOCKBLOB_PATH_DEPS,
      BLOCKBLOB_PATH_LOOPBACK, BLOCKBLOB_PATH_SIG, BLOCKBLOB_PATH_REFS]"

definition typeof_blockblob_metadata_path ::
  "blobstore \<Rightarrow> string \<Rightarrow> (blockblob_path_t \<times> string) option"
where
  "typeof_blockblob_metadata_path bs path =
     (if \<not> starts_with (bs_path bs) path then None
      else
        (let rel_path = drop (length (bs_path bs) + 1) path;
             sep = (if format bs = BLOBSTORE_FORMAT_DIRECTORY then ''/'' else ''.'');
             matches = (\<lambda>k. length (sep @ blobstore_metadata_suffixes k) < length rel_path \<and>
                            drop (length rel_path - length (sep @ blobstore_metadata_suffixes k))
                              rel_path
                            = sep @ blobstore_metadata_suffixes k)
         in case List.find matches all_path_types of
              None \<Rightarrow> Some (BLOCKBLOB_PATH_NONE, [])
            | Some k \<Rightarrow>
                Some (k, take (length rel_path - length (sep @ blobstore_metadata_suffixes k))
                           rel_path)))"

text \<open>The first loop of \<^verbatim>\<open>delete_blockblob_files\<close>, over the kinds of sidecar.\<close>

fun unlink_loop :: "blockblob_path_t list \<Rightarrow> blobstore \<Rightarrow> string \<Rightarrow> world \<Rightarrow> int \<times> world" where
  "unlink_loop [] bs blob_id w = (0, w)"
| "unlink_loop (path_t # ts) bs blob_id w =
     (case set_blockblob_metadata_path path_t bs blob_id [] w of
        ((r, path), w1) \<Rightarrow>
          (case sys_unlink path w1 of
             (unlinked, w2) \<Rightarrow>
               (case unlink_loop ts bs blob_id w2 of
                  (c, w3) \<Rightarrow> ((if unlinked then 1 else 0) + c, w3))))"

text \<open>
  The second loop, from index \<open>i\<close> down to 1: at each slash the path is cut and the
  directory removed, until a removal fails.
\<close>

fun rmdir_loop :: "string \<Rightarrow> nat \<Rightarrow> world \<Rightarrow> int \<times> world" where
  "rmdir_loop path 0 w = (0, w)"
| "rmdir_loop path (Suc i) w =
     (if path ! Suc i = CHR ''/'' then
        (case sys_rmdir (take (Suc i) path) w of
           (removed, w1) \<Rightarrow>
             if removed then (case rmdir_loop path i w1 of (c, w2) \<Rightarrow> (1 + c, w2))
             else (0, w1))
      else rmdir_loop path i w)"

definition delete_blockblob_files :: "blobstore \<Rightarrow> string \<Rightarrow> world \<Rightarrow> int \<times> world" where
  "delete_blockblob_files bs blob_id w =
     (case unlink_loop all_path_types bs blob_id w of
        (c1, w1) \<Rightarrow>
          (let path = bs_path bs @ ''/'' @ blob_id @
                      (if format bs = BLOBSTORE_FORMAT_DIRECTORY then ''/'' else [])
           in case rmdir_loop path (length path - 1) w1 of
                (c2, w2) \<Rightarrow> (c1 + c2, w2)))"

fun ensure_directories_loop ::
  "string \<Rightarrow> bool \<Rightarrow> nat list \<Rightarrow> int \<Rightarrow> world \<Rightarrow> int \<times> world"
where
  "ensure_directories_loop path is_file_path [] ret w = (ret, w)"
| "ensure_directories_loop path is_file_path (i # rest) ret w =
     (case (if path ! i = CHR ''/'' \<and> i > 0 then Some (take i path)
            else if path ! i \<noteq> CHR ''/'' \<and> i + 1 = length path \<and> \<not> is_file_path
            then Some path
            else None) of
        None \<Rightarrow> ensure_directories_loop path is_file_path rest ret w
      | Some path_copy \<Rightarrow>
          if map_of (fs w) path_copy = None then
            (case sys_mkdir path_copy w of
               (made, w1) \<Rightarrow>
                 if made then ensure_directories_loop path is_file_path rest 1 w1
                 else (- 1, w1))
          else ensure_directories_loop path is_file_path rest ret w)"

definition ensure_directories_exist :: "string \<Rightarrow> bool \<Rightarrow> nat \<Rightarrow> world \<Rightarrow> int \<times> world" where
  "ensure_directories_exist path is_file_path mode w =
     (if length path = 0 then (- 1, w)
      else ensure_directories_loop path is_file_path [0 ..< length path] 0 w)"

definition BLOBSTORE_DEFAULT_UMASK :: nat where
  "BLOBSTORE_DEFAULT_UMASK = 448"

definition ensure_blockblob_metadata_path :: "blobstore \<Rightarrow> string \<Rightarrow> world \<Rightarrow> int \<times> world" where
  "ensure_blockblob_metadata_path bs blob_id w =
     ensure_directories_exist (bs_path bs @ ''/'' @ blob_id)
       (\<not> (format bs = BLOBSTORE_FORMAT_DIRECTORY)) BLOBSTORE_DEFAULT_UMASK w"

subsection \<open>In-use status, scanning and LRU revocation\<close>

definition PATH_MAX :: nat where
  "PATH_MAX = 4096"

definition check_in_use ::
  "blobstore \<Rightarrow> string \<Rightarrow> int \<Rightarrow> world \<Rightarrow> (blockblob_status set \<times> world) option"
where
  "check_in_use bs blob_id timeout_usec w =
     (case set_blockblob_metadata_path BLOCKBLOB_PATH_BLOCKS bs blob_id [] w of
        ((r, buf), w1) \<Rightarrow>
          do {
            (d, w2) \<leftarrow> open_and_lock buf {BLOBSTORE_FLAG_RDWR} timeout_usec (nat timeout_usec)
                          (err_off w1);
            (opened, w3) \<leftarrow>
              (if d \<noteq> - 1
               then map_option (\<lambda>(r, w'). ({}, w')) (close_and_unlock d w2)
               else Some ({BLOCKBLOB_STATUS_OPENED}, w2));
            (case read_blockblob_metadata_path BLOCKBLOB_PATH_REFS bs blob_id buf PATH_MAX w3 of
               ((n_refs, buf1), w4) \<Rightarrow>
                 (case read_blockblob_metadata_path BLOCKBLOB_PATH_DEPS bs blob_id buf1 PATH_MAX w4 of
                    ((n_deps, buf2), w5) \<Rightarrow>
                      Some (opened \<union>
                            (if n_refs > 0 then {BLOCKBLOB_STATUS_MAPPED} else {}) \<union>
                            (if n_deps > 0 then {BLOCKBLOB_STATUS_BACKED} else {}),
                            err_on w5)))
          })"

definition set_device_path :: "blockblob \<Rightarrow> world \<Rightarrow> blockblob \<times> world" where
  "set_device_path bb w =
     (case read_array_blockblob_metadata_path BLOCKBLOB_PATH_DM (store bb) (bb_id bb) (err_off w) of
        ((r, dm_devs), w1) \<Rightarrow>
          if length dm_devs > 0
          then (bb\<lparr>device_path := DM_PATH @ last dm_devs, dm_name := last dm_devs\<rparr>, err_on w1)
          else
            (case read_blockblob_metadata_path BLOCKBLOB_PATH_LOOPBACK (store bb) (bb_id bb) []
                    PATH_MAX (err_off (err_on w1)) of
               ((n, lo_dev), w2) \<Rightarrow> (bb\<lparr>device_path := lo_dev\<rparr>, err_on w2)))"

text \<open>
  \<^verbatim>\<open>readdir\<close>: the entries of a directory are the nodes one name below it, in the
  order of the file system list.
\<close>

definition readdir :: "string \<Rightarrow> world \<Rightarrow> (string \<times> node) list" where
  "readdir dir_path w =
     filter (\<lambda>(k, n). starts_with (dir_path @ ''/'') k \<and>
                      drop (length dir_path + 1) k \<noteq> [] \<and>
                      CHR ''/'' \<notin> set (drop (length dir_path + 1) k)) (fs w)"

definition st_size :: "node \<Rightarrow> nat" where
  "st_size n = (case n of Reg s t \<Rightarrow> length s | _ \<Rightarrow> 0)"

definition st_mtime :: "node \<Rightarrow> int" where
  "st_mtime n = (case n of Reg s t \<Rightarrow> t | _ \<Rightarrow> 0)"

text \<open>
  \<^verbatim>\<open>walk_bs\<close>, with the blobs it appends to the list in the order of discovery. The
  first argument bounds the depth of the recursion into subdirectories. Access times are
  not modelled: \<open>last_accessed\<close> is given the modification time.
\<close>

fun walk_bs :: "nat \<Rightarrow> blobstore \<Rightarrow> string \<Rightarrow> world \<Rightarrow> (blockblob list \<times> world) option"
  and walk_entries ::
    "nat \<Rightarrow> blobstore \<Rightarrow> string \<Rightarrow> (string \<times> node) list \<Rightarrow> world \<Rightarrow> (blockblob list \<times> world) option"
where
  "walk_bs 0 bs dir_path w = None"
| "walk_bs (Suc n) bs dir_path w =
     (if map_of (fs w) dir_path \<noteq> Some Dir then Some ([], w)
      else walk_entries n bs dir_path (readdir dir_path w) w)"
| "walk_entries n bs dir_path [] w = Some ([], w)"
| "walk_entries n bs dir_path ((entry_path, nd) # rest) w =
     (if drop (length dir_path + 1) entry_path = BLOBSTORE_METADATA_FILE
      then walk_entries n bs dir_path rest w
      else if nd = Dir then
        do {
          (found, w1) \<leftarrow> walk_bs n bs entry_path w;
          (more, w2) \<leftarrow> walk_entries n bs dir_path rest w1;
          Some (found @ more, w2)
        }
      else
        (case typeof_blockblob_metadata_path bs entry_path of
           None \<Rightarrow> None
         | Some (kind, blob_id) \<Rightarrow>
             if kind \<noteq> BLOCKBLOB_PATH_BLOCKS then walk_entries n bs dir_path rest w
             else
               (case set_device_path
                       \<lparr>store = bs, bb_id = blob_id, blocks_path = entry_path, device_path = [],
                        dm_name = [], size_blocks = 0, in_use = {}, last_accessed = 0,
                        last_modified = 0, snapshot_type = BLOBSTORE_SNAPSHOT_ANY, bb_fd = 0\<rparr> w of
                  (bb, w1) \<Rightarrow>
                    do {
                      (u, w2) \<leftarrow> check_in_use bs blob_id 0 w1;
                      (more, w3) \<leftarrow> walk_entries n bs dir_path rest w2;
                      Some (bb\<lparr>size_blocks := st_size nd div 512,
                                last_accessed := st_mtime nd,
                                last_modified := st_mtime nd,
                                in_use := u\<rparr> # more, w3)
                    })))"

definition scan_blobstore :: "blobstore \<Rightarrow> world \<Rightarrow> (blockblob list \<times> world) option" where
  "scan_blobstore bs w = walk_bs (Suc (length (fs w))) bs (bs_path bs) w"

text \<open>
  \<^verbatim>\<open>compare_bbs\<close>: the difference of the two modification times, cut to the 32 bits
  of an \<^verbatim>\<open>int\<close>.
\<close>

definition compare_bbs :: "blockblob \<Rightarrow> blockblob \<Rightarrow> int" where
  "compare_bbs bb1 bb2 = sint (word_of_int (last_modified bb1 - last_modified bb2) :: 32 word)"

text \<open>The loop of \<^verbatim>\<open>purge_blockblobs_lru\<close> over the sorted array.\<close>

fun purge_loop :: "blobstore \<Rightarrow> blockblob list \<Rightarrow> int \<Rightarrow> int \<Rightarrow> world \<Rightarrow> int \<times> world" where
  "purge_loop bs [] need_blocks purged w = (purged, w)"
| "purge_loop bs (bb # rest) need_blocks purged w =
     (case (if in_use bb - {BLOCKBLOB_STATUS_BACKED} = {}
            then (case delete_blockblob_files bs (bb_id bb) w of
                    (c, w1) \<Rightarrow> (if c > 0 then purged + int (size_blocks bb) else purged, w1))
            else (purged, w)) of
        (purged1, w1) \<Rightarrow>
          if purged1 \<ge> need_blocks then (purged1, w1)
          else purge_loop bs rest need_blocks purged1 w1)"

definition purge_blockblobs_lru :: "blobstore \<Rightarrow> blockblob list \<Rightarrow> int \<Rightarrow> world \<Rightarrow> int \<times> world" where
  "purge_blockblobs_lru bs bb_list need_blocks w =
     (if length bb_list \<noteq> 0
      then purge_loop bs (qsort w compare_bbs bb_list) need_blocks 0 w
      else (0, w))"

subsection \<open>Blob lifecycle: open and close\<close>

text \<open>
  The external helpers of \<^verbatim>\<open>diskutil.h\<close>. Each call is recorded; whether it succeeds is
  for the world to say.
\<close>

definition diskutil_loop :: "string \<Rightarrow> world \<Rightarrow> (bool \<times> string) \<times> world" where
  "diskutil_loop path w =
     ((helper_ok w (DISKUTIL_LOOP path), loop_device w path),
      w\<lparr>helper_calls := helper_calls w @ [DISKUTIL_LOOP path]\<rparr>)"

definition diskutil_unloop :: "string \<Rightarrow> world \<Rightarrow> bool \<times> world" where
  "diskutil_unloop dev w =
     (helper_ok w (DISKUTIL_UNLOOP dev),
      w\<lparr>helper_calls := helper_calls w @ [DISKUTIL_UNLOOP dev]\<rparr>)"

definition diskutil_dd2 ::
  "string option \<Rightarrow> string \<Rightarrow> nat \<Rightarrow> nat \<Rightarrow> nat \<Rightarrow> nat \<Rightarrow> world \<Rightarrow> bool \<times> world"
where
  "diskutil_dd2 src dst bsize cnt seek skip w =
     (helper_ok w (DISKUTIL_DD2 src dst bsize cnt seek skip),
      w\<lparr>helper_calls := helper_calls w @ [DISKUTIL_DD2 src dst bsize cnt seek skip]\<rparr>)"

text \<open>The label \<^verbatim>\<open>unlock\<close> of \<^verbatim>\<open>blockblob_open\<close>, which falls through to \<^verbatim>\<open>free\<close>.\<close>

definition blockblob_open_unlock :: "blobstore \<Rightarrow> world \<Rightarrow> (blockblob option \<times> world) option" where
  "blockblob_open_unlock bs w =
     do {
       ((r, bs1), w1) \<leftarrow> blobstore_unlock bs w;
       Some (None,
             (let w2 = (if r = - 1 then err BLOBSTORE_ERROR_UNKNOWN w1 else w1)
              in if blobstore_errno w \<noteq> BLOBSTORE_ERROR_OK
                 then w2\<lparr>blobstore_errno := blobstore_errno w\<rparr> else w2))
     }"

text \<open>The label \<^verbatim>\<open>clean\<close> of \<^verbatim>\<open>blockblob_open\<close>, which falls through to \<^verbatim>\<open>unlock\<close>.\<close>

definition blockblob_open_clean ::
  "blobstore \<Rightarrow> blockblob \<Rightarrow> bool \<Rightarrow> world \<Rightarrow> (blockblob option \<times> world) option"
where
  "blockblob_open_clean bs bb created w =
     do {
       w1 \<leftarrow> (if bb_fd bb \<noteq> - 1 then map_option snd (close_and_unlock (bb_fd bb) w) else Some w);
       blockblob_open_unlock bs
         (let w2 = (if created then snd (delete_blockblob_files bs (bb_id bb) w1) else w1)
          in if blobstore_errno w \<noteq> BLOBSTORE_ERROR_OK
             then w2\<lparr>blobstore_errno := blobstore_errno w\<rparr> else w2)
     }"

text \<open>
  The branch of \<^verbatim>\<open>blockblob_open\<close> for a file of size 0 (a new blob): scan, free
  space, LRU purge, the sparse file and the signature. The result is \<open>True\<close> when the
  branch ends normally and \<open>False\<close> when it jumps to \<^verbatim>\<open>clean\<close>.
\<close>

definition blockblob_open_new ::
  "blobstore \<Rightarrow> blockblob \<Rightarrow> string option \<Rightarrow> world \<Rightarrow> (bool \<times> world) option"
where
  "blockblob_open_new bs bb sig w =
     do {
       (bbs, w1) \<leftarrow> scan_blobstore bs (w\<lparr>blobstore_errno := BLOBSTORE_ERROR_OK\<rparr>);
       (if bbs = [] \<and> blobstore_errno w1 \<noteq> BLOBSTORE_ERROR_OK then Some (False, w1)
        else
          (let blocks_inuse =
                 (\<Sum>abb \<leftarrow> bbs. if in_use abb - {BLOCKBLOB_STATUS_BACKED} \<noteq> {}
                                 then int (size_blocks abb) else 0);
               blocks_allocated =
                 (\<Sum>abb \<leftarrow> bbs. if in_use abb - {BLOCKBLOB_STATUS_BACKED} \<noteq> {}
                                 then 0 else int (size_blocks abb));
               blocks_free = to_ll (int (limit_blocks bs) - (blocks_allocated + blocks_inuse));
               blocks_needed = to_ll (int (size_blocks bb) - blocks_free);
               sparse = (\<lambda>w'. w'\<lparr>fs := AList.update (blocks_path bb)
                                        (Reg (replicate (size_blocks bb * 512) (CHR 0x00)) (now w'))
                                        (fs w')\<rparr>);
               finish = (\<lambda>w'. case sig of
                                None \<Rightarrow> (True, sparse w')
                              | Some sg \<Rightarrow>
                                  (case write_blockblob_metadata_path BLOCKBLOB_PATH_SIG bs (bb_id bb)
                                          sg (sparse w') of
                                     (r, w'') \<Rightarrow> (r = 0, w'')))
           in
             if to_ull blocks_free < int (size_blocks bb) then
               (if revocation_policy bs \<noteq> BLOBSTORE_REVOCATION_LRU \<or>
                   to_ull (blocks_free + blocks_allocated) < int (size_blocks bb)
                then Some (False, err BLOBSTORE_ERROR_NOSPC w1)
                else
                  (case purge_blockblobs_lru bs bbs blocks_needed (err_off w1) of
                     (blocks_freed, w2) \<Rightarrow>
                       if blocks_freed < blocks_needed
                       then Some (False, err BLOBSTORE_ERROR_NOSPC (err_on w2))
                       else Some (finish (err_on w2))))
             else Some (finish w1)))
     }"

text \<open>
  The branch for a file that is not empty (the blob existed): the size and the
  signature are checked. The result is the handle, or \<open>None\<close> for a jump to
  \<^verbatim>\<open>clean\<close>.
\<close>

definition blockblob_open_existing ::
  "blobstore \<Rightarrow> blockblob \<Rightarrow> nat \<Rightarrow> string option \<Rightarrow> world \<Rightarrow> blockblob option \<times> world"
where
  "blockblob_open_existing bs bb file_size sig w =
     (if size_blocks bb \<noteq> 0 \<and> size_blocks bb \<noteq> file_size div 512
      then (None, err BLOBSTORE_ERROR_INVAL w)
      else
        (let bb1 = (if size_blocks bb = 0 then bb\<lparr>size_blocks := file_size div 512\<rparr> else bb)
         in case sig of
              None \<Rightarrow> (Some bb1, w)
            | Some sg \<Rightarrow>
                (case read_blockblob_metadata_path BLOCKBLOB_PATH_SIG bs (bb_id bb) [] 1024 w of
                   ((sig_size, buf), w1) \<Rightarrow>
                     if sig_size \<noteq> int (length sg) \<or>
                        take (nat sig_size) sg \<noteq> take (nat sig_size) buf
                     then (None, err BLOBSTORE_ERROR_SIGNATURE w1)
                     else (Some bb1, w1))))"

text \<open>
  The loopback device of \<^verbatim>\<open>blockblob_open\<close>: the recorded one if it is a block
  device, else a new one from \<^verbatim>\<open>diskutil_loop\<close>. \<open>False\<close> is a jump to \<^verbatim>\<open>clean\<close>.
\<close>

definition blockblob_open_loop :: "blobstore \<Rightarrow> blockblob \<Rightarrow> world \<Rightarrow> bool \<times> world" where
  "blockblob_open_loop bs bb w =
     (case read_blockblob_metadata_path BLOCKBLOB_PATH_LOOPBACK bs (bb_id bb) [] PATH_MAX
             (err_off w) of
        ((n, lo_dev), w1) \<Rightarrow>
          if length lo_dev > 0 then
            (case map_of (fs w1) lo_dev of
               None \<Rightarrow> (False, err BLOBSTORE_ERROR_UNKNOWN (err_on w1\<lparr>errno := ENOENT\<rparr>))
             | Some Blk \<Rightarrow> (True, err_on w1)
             | Some nd \<Rightarrow> (False, err BLOBSTORE_ERROR_UNKNOWN (err_on w1)))
          else
            (case diskutil_loop (blocks_path bb) (err_on w1) of
               ((ok, dev), w2) \<Rightarrow>
                 if \<not> ok then (False, err BLOBSTORE_ERROR_UNKNOWN w2)
                 else (True, snd (write_blockblob_metadata_path BLOCKBLOB_PATH_LOOPBACK bs
                                    (bb_id bb) dev w2))))"

text \<open>
  \<^verbatim>\<open>blockblob_open\<close>. The handle keeps a copy of the store handle; the field
  \<^verbatim>\<open>bs->fd\<close> is only read between \<^verbatim>\<open>blobstore_lock\<close> and \<^verbatim>\<open>blobstore_unlock\<close> of one
  call. \<open>timeout\<close> is passed on as it is.
\<close>

definition blockblob_open ::
  "blobstore \<Rightarrow> string option \<Rightarrow> nat \<Rightarrow> blobstore_flag set \<Rightarrow> string option \<Rightarrow> int \<Rightarrow>
   world \<Rightarrow> (blockblob option \<times> world) option"
where
  "blockblob_open bs id_opt size_blocks_arg flags sig timeout w =
     (if flags - {BLOBSTORE_FLAG_CREAT, BLOBSTORE_FLAG_EXCL} \<noteq> {}
      then Some (None, err BLOBSTORE_ERROR_INVAL w)
      else if id_opt = None \<and> BLOBSTORE_FLAG_CREAT \<notin> flags
      then Some (None, err BLOBSTORE_ERROR_INVAL w)
      else if size_blocks_arg = 0 \<and> BLOBSTORE_FLAG_CREAT \<in> flags
      then Some (None, err BLOBSTORE_ERROR_INVAL w)
      else if size_blocks_arg \<noteq> 0 \<and> BLOBSTORE_FLAG_CREAT \<in> flags \<and>
              size_blocks_arg > limit_blocks bs
      then Some (None, err BLOBSTORE_ERROR_NOSPC w)
      else
        (let the_id = (case id_opt of Some i \<Rightarrow> i | None \<Rightarrow> gen_id w) in
         case set_blockblob_metadata_path BLOCKBLOB_PATH_BLOCKS bs the_id [] w of
           ((r0, bpath), w0) \<Rightarrow>
             (let bb = \<lparr>store = bs, bb_id = the_id, blocks_path = bpath, device_path = [],
                        dm_name = [], size_blocks = size_blocks_arg, in_use = {},
                        last_accessed = 0, last_modified = 0,
                        snapshot_type = BLOBSTORE_SNAPSHOT_ANY, bb_fd = 0\<rparr>
              in
              do {
                ((lk, bs1), w1) \<leftarrow> blobstore_lock bs timeout w0;
                (if lk = - 1 then Some (None, w1)
                 else
                   (case ensure_blockblob_metadata_path bs1 the_id w1 of
                      (created_directory, w2) \<Rightarrow>
                        if created_directory = - 1
                        then blockblob_open_unlock bs1
                               (propagate_system_errno BLOBSTORE_ERROR_UNKNOWN w2)
                        else
                          do {
                            (d, w3) \<leftarrow> open_and_lock bpath (insert BLOBSTORE_FLAG_RDWR flags)
                                          timeout 384 w2;
                            (if d = - 1
                             then blockblob_open_clean bs1 (bb\<lparr>bb_fd := d\<rparr>)
                                    (created_directory \<noteq> 0) w3
                             else
                               (case map_of (fs w3) bpath of
                                  None \<Rightarrow>
                                    blockblob_open_clean bs1 (bb\<lparr>bb_fd := d\<rparr>)
                                      (created_directory \<noteq> 0)
                                      (propagate_system_errno BLOBSTORE_ERROR_UNKNOWN
                                         (w3\<lparr>errno := ENOENT\<rparr>))
                                | Some nd \<Rightarrow>
                                    do {
                                      (bb_opt, created_blob, w4) \<leftarrow>
                                        (if st_size nd = 0
                                         then map_option
                                                (\<lambda>(ok, w'). (if ok then Some (bb\<lparr>bb_fd := d\<rparr>) else None,
                                                              True, w'))
                                                (blockblob_open_new bs1 (bb\<lparr>bb_fd := d\<rparr>) sig w3)
                                         else (case blockblob_open_existing bs1 (bb\<lparr>bb_fd := d\<rparr>)
                                                      (st_size nd) sig w3 of
                                                 (b, w') \<Rightarrow> Some (b, False, w')));
                                      (case bb_opt of
                                         None \<Rightarrow>
                                           blockblob_open_clean bs1 (bb\<lparr>bb_fd := d\<rparr>)
                                             (created_directory \<noteq> 0 \<or> created_blob) w4
                                       | Some bb1 \<Rightarrow>
                                           (case blockblob_open_loop bs1 bb1 w4 of
                                              (ok, w5) \<Rightarrow>
                                                if \<not> ok
                                                then blockblob_open_clean bs1 bb1
                                                       (created_directory \<noteq> 0 \<or> created_blob) w5
                                                else
                                                  (case set_device_path bb1 w5 of
                                                     (bb2, w6) \<Rightarrow>
                                                       do {
                                                         ((r, bs2), w7) \<leftarrow> blobstore_unlock bs1 w6;
                                                         Some (Some bb2,
                                                               if r = - 1
                                                               then err BLOBSTORE_ERROR_UNKNOWN w7
                                                               else w7)
                                                       })))
                                    }))
                          }))
              })))"

definition loop_remove :: "blobstore \<Rightarrow> string \<Rightarrow> world \<Rightarrow> int \<times> world" where
  "loop_remove bs blob_id w =
     (case read_blockblob_metadata_path BLOCKBLOB_PATH_LOOPBACK bs blob_id [] PATH_MAX (err_off w) of
        ((n, path), w1) \<Rightarrow>
          if length path \<noteq> 0 then
            (case diskutil_unloop path (err_on w1) of
               (ok, w2) \<Rightarrow>
                 if \<not> ok then (- 1, err BLOBSTORE_ERROR_UNKNOWN w2)
                 else
                   (case set_blockblob_metadata_path BLOCKBLOB_PATH_LOOPBACK bs blob_id path w2 of
                      ((r, lpath), w3) \<Rightarrow> (0, snd (sys_unlink lpath w3))))
          else (0, err_on w1))"

text \<open>A NULL handle is \<open>None\<close>. \<^verbatim>\<open>ret |= x\<close> on 0 and -1 is -1 unless both are 0.\<close>

definition blockblob_close :: "blockblob option \<Rightarrow> world \<Rightarrow> (int \<times> world) option" where
  "blockblob_close bb_opt w =
     (case bb_opt of
        None \<Rightarrow> Some (- 1, err BLOBSTORE_ERROR_INVAL w)
      | Some bb \<Rightarrow>
          do {
            (u, w1) \<leftarrow> check_in_use (store bb) (bb_id bb) 0 w;
            (case (if u \<inter> {BLOCKBLOB_STATUS_MAPPED, BLOCKBLOB_STATUS_BACKED} = {}
                   then loop_remove (store bb) (bb_id bb) w1 else (0, w1)) of
               (ret, w2) \<Rightarrow>
                 do {
                   (r, w3) \<leftarrow> close_and_unlock (bb_fd bb) w2;
                   Some (if ret = 0 \<and> r = 0 then 0 else - 1, w3)
                 })
          })"

subsection \<open>Device mapper\<close>

text \<open>
  \<^verbatim>\<open>dmsetup remove\<close> and \<^verbatim>\<open>dmsetup create\<close>, as the code runs them with \<^verbatim>\<open>system\<close> and
  \<^verbatim>\<open>execl\<close>: a device of the device mapper is a block device node under \<open>DM_PATH\<close>.
\<close>

definition dmsetup_remove :: "string \<Rightarrow> world \<Rightarrow> bool \<times> world" where
  "dmsetup_remove name w =
     (let w1 = w\<lparr>helper_calls := helper_calls w @ [DMSETUP_REMOVE name]\<rparr>
      in if helper_ok w (DMSETUP_REMOVE name) \<and> map_of (fs w) (DM_PATH @ name) = Some Blk
         then (True, w1\<lparr>fs := AList.delete (DM_PATH @ name) (fs w)\<rparr>)
         else (False, w1))"

definition dmsetup_create :: "string \<Rightarrow> string \<Rightarrow> world \<Rightarrow> bool \<times> world" where
  "dmsetup_create name table w =
     (let w1 = w\<lparr>helper_calls := helper_calls w @ [DMSETUP_CREATE name table]\<rparr>
      in if helper_ok w (DMSETUP_CREATE name table) \<and> map_of (fs w) (DM_PATH @ name) = None
         then (True, w1\<lparr>fs := fs w @ [(DM_PATH @ name, Blk)]\<rparr>)
         else (False, w1))"

text \<open>The second loop of \<^verbatim>\<open>dm_delete_devices\<close>: each removal is tried twice.\<close>

fun dm_remove_loop :: "string list \<Rightarrow> int \<Rightarrow> world \<Rightarrow> int \<times> world" where
  "dm_remove_loop [] ret w = (ret, w)"
| "dm_remove_loop (name # rest) ret w =
     (case dmsetup_remove name w of
        (ok, w1) \<Rightarrow>
          if ok then dm_remove_loop rest ret w1
          else
            (case dmsetup_remove name (usleep 100 w1) of
               (ok2, w2) \<Rightarrow>
                 if ok2 then dm_remove_loop rest ret w2
                 else dm_remove_loop rest (- 1) (err BLOBSTORE_ERROR_UNKNOWN w2)))"

text \<open>
  \<^verbatim>\<open>dm_delete_devices\<close>: the names in reverse order, each once (the last occurrence
  of a name in the array is the one that counts).
\<close>

definition dm_delete_devices :: "string list \<Rightarrow> world \<Rightarrow> int \<times> world" where
  "dm_delete_devices dev_names w =
     (if length dev_names < 1 then (0, w)
      else dm_remove_loop (rev (remdups dev_names)) 0 w)"

text \<open>
  \<^verbatim>\<open>dm_create_devices\<close>; \<open>created\<close> are the names of the devices created before. After a
  failure the devices up to and with the failed one are deleted again.
\<close>

fun dm_create_loop :: "string list \<Rightarrow> (string \<times> string) list \<Rightarrow> world \<Rightarrow> int \<times> world" where
  "dm_create_loop created [] w = (0, w)"
| "dm_create_loop created ((name, table) # rest) w =
     (case dmsetup_create name table w of
        (ok, w1) \<Rightarrow>
          if ok then dm_create_loop (created @ [name]) rest w1
          else (- 1, err_on (snd (dm_delete_devices (created @ [name])
                                    (err_off (err BLOBSTORE_ERROR_UNKNOWN w1))))))"

definition dm_create_devices :: "string list \<Rightarrow> string list \<Rightarrow> world \<Rightarrow> int \<times> world" where
  "dm_create_devices dev_names dm_tables w = dm_create_loop [] (zip dev_names dm_tables) w"

definition dm_get_zero :: "world \<Rightarrow> string option \<times> world" where
  "dm_get_zero w =
     (let dev_zero = DM_PATH @ EUCA_ZERO;
          w2 = (if map_of (fs w) dev_zero = None
                then snd (dm_create_devices [EUCA_ZERO] [''0 '' @ EUCA_ZERO_SIZE @ '' zero'']
                            (w\<lparr>errno := ENOENT\<rparr>))
                else w)
      in case map_of (fs w2) dev_zero of
           None \<Rightarrow> (None, err BLOBSTORE_ERROR_UNKNOWN (w2\<lparr>errno := ENOENT\<rparr>))
         | Some Blk \<Rightarrow> (Some dev_zero, w2)
         | Some nd \<Rightarrow> (None, err BLOBSTORE_ERROR_UNKNOWN w2))"

subsection \<open>Blob lifecycle: delete\<close>

text \<open>
  \<^verbatim>\<open>strrchr (s, ' ')\<close> and the cut at it: the part before the last space and the part
  after it, or \<open>None\<close> without a space.
\<close>

definition split_last_space :: "string \<Rightarrow> (string \<times> string) option" where
  "split_last_space s =
     (if CHR '' '' \<in> set s
      then Some (rev (drop 1 (dropWhile (\<lambda>c. c \<noteq> CHR '' '') (rev s))),
                 rev (takeWhile (\<lambda>c. c \<noteq> CHR '' '') (rev s)))
      else None)"

text \<open>
  The loop of \<^verbatim>\<open>blockblob_delete\<close> over the entries of the \<open>deps\<close> sidecar. An entry
  without a space that is not empty makes the code call \<^verbatim>\<open>strlen\<close> on NULL: no result.
\<close>

fun delete_deps_loop :: "blobstore \<Rightarrow> string \<Rightarrow> string list \<Rightarrow> world \<Rightarrow> world option" where
  "delete_deps_loop bs my_ref [] w = Some w"
| "delete_deps_loop bs my_ref (e # rest) w =
     (case split_last_space e of
        None \<Rightarrow> if length e < 1 then delete_deps_loop bs my_ref rest w else None
      | Some (store_path, blob_id) \<Rightarrow>
          if length store_path < 1 \<or> length blob_id < 1 then delete_deps_loop bs my_ref rest w
          else
            do {
              (dep_opt, w1) \<leftarrow>
                (if bs_path bs \<noteq> store_path
                 then blobstore_open store_path 0 BLOBSTORE_FORMAT_ANY BLOBSTORE_REVOCATION_ANY
                        BLOBSTORE_SNAPSHOT_ANY w
                 else Some (Some bs, w));
              (case dep_opt of
                 None \<Rightarrow> delete_deps_loop bs my_ref rest w1
               | Some dep_bs \<Rightarrow>
                   (case update_entry_blockblob_metadata_path BLOCKBLOB_PATH_REFS dep_bs blob_id
                           my_ref True w1 of
                      (r, w2) \<Rightarrow>
                        do {
                          (u, w3) \<leftarrow> check_in_use dep_bs blob_id 0 w2;
                          delete_deps_loop bs my_ref rest
                            (if u = {} then snd (loop_remove dep_bs blob_id w3) else w3)
                        }))
            })"

text \<open>The label \<^verbatim>\<open>unlock\<close> of \<^verbatim>\<open>blockblob_delete\<close>.\<close>

definition blockblob_delete_unlock :: "blobstore \<Rightarrow> int \<Rightarrow> world \<Rightarrow> (int \<times> world) option" where
  "blockblob_delete_unlock bs ret w =
     do {
       ((r, bs1), w1) \<leftarrow> blobstore_unlock bs w;
       Some (ret,
             (let w2 = (if r = - 1 then err BLOBSTORE_ERROR_UNKNOWN w1 else w1)
              in if blobstore_errno w \<noteq> BLOBSTORE_ERROR_OK
                 then w2\<lparr>blobstore_errno := blobstore_errno w\<rparr> else w2))
     }"

text \<open>
  The end of \<^verbatim>\<open>blockblob_delete\<close>, after the loop over the dependencies: the loopback
  device, the lock on the blocks file and the files of the blob.
\<close>

definition blockblob_delete_files :: "blobstore \<Rightarrow> blockblob \<Rightarrow> world \<Rightarrow> (int \<times> world) option" where
  "blockblob_delete_files bs bb w =
     (case loop_remove bs (bb_id bb) w of
        (r1, w1) \<Rightarrow>
          do {
            (r2, w2) \<leftarrow> close_and_unlock (bb_fd bb) w1;
            (case delete_blockblob_files bs (bb_id bb) w2 of
               (c, w3) \<Rightarrow>
                 blockblob_delete_unlock bs
                   (if r1 = - 1 \<or> r2 \<noteq> 0 \<or> c < 1 then - 1 else 0) w3)
          })"

definition blockblob_delete :: "blockblob option \<Rightarrow> int \<Rightarrow> world \<Rightarrow> (int \<times> world) option" where
  "blockblob_delete bb_opt timeout_usec w =
     (case bb_opt of
        None \<Rightarrow> Some (- 1, err BLOBSTORE_ERROR_INVAL w)
      | Some bb \<Rightarrow>
          do {
            ((lk, bs), w1) \<leftarrow> blobstore_lock (store bb) timeout_usec w;
            (if lk = - 1 then Some (- 1, w1)
             else
               do {
                 (u, w2) \<leftarrow> check_in_use bs (bb_id bb) timeout_usec w1;
                 (if u - {BLOCKBLOB_STATUS_OPENED, BLOCKBLOB_STATUS_BACKED} \<noteq> {}
                  then blockblob_delete_unlock bs (- 1) (err BLOBSTORE_ERROR_AGAIN w2)
                  else
                    (case read_array_blockblob_metadata_path BLOCKBLOB_PATH_DM (store bb) (bb_id bb) w2 of
                       ((r3, dm_devs), w3) \<Rightarrow>
                         if r3 = - 1 then blockblob_delete_unlock bs (- 1) w3
                         else
                           (case dm_delete_devices dm_devs w3 of
                              (r4, w4) \<Rightarrow>
                                if r4 = - 1 then blockblob_delete_unlock bs (- 1) w4
                                else
                                  (case read_array_blockblob_metadata_path BLOCKBLOB_PATH_DEPS
                                          (store bb) (bb_id bb) w4 of
                                     ((r5, deps), w5) \<Rightarrow>
                                       if r5 = - 1 then blockblob_delete_unlock bs (- 1) w5
                                       else
                                         do {
                                           w6 \<leftarrow> delete_deps_loop bs
                                                   (bs_path (store bb) @ '' '' @ bb_id bb) deps w5;
                                           blockblob_delete_files bs bb w6
                                         }))))
               })
          })"

subsection \<open>Composition: \<^verbatim>\<open>blockblob_clone\<close>\<close>

text \<open>
  The first loop of \<^verbatim>\<open>blockblob_clone\<close>, which verifies the entries of the map. The
  result is whether every entry passed, and \<^verbatim>\<open>zero_dev\<close>.
\<close>

fun clone_verify ::
  "blockblob \<Rightarrow> blockmap list \<Rightarrow> string option \<Rightarrow> world \<Rightarrow> (bool \<times> string option) \<times> world"
where
  "clone_verify bb [] zero_dev w = ((True, zero_dev), w)"
| "clone_verify bb (m # rest) zero_dev w =
     (if relation_type m \<noteq> BLOBSTORE_COPY \<and> snapshot_policy (store bb) \<noteq> BLOBSTORE_SNAPSHOT_DM
      then ((False, zero_dev), err BLOBSTORE_ERROR_INVAL w)
      else
        (case source_type m of
           BLOBSTORE_DEVICE \<Rightarrow>
             (case source_device_path (source m) of
                None \<Rightarrow> ((False, zero_dev), err BLOBSTORE_ERROR_INVAL w)
              | Some path \<Rightarrow>
                  (case map_of (fs w) path of
                     None \<Rightarrow> ((False, zero_dev),
                               propagate_system_errno BLOBSTORE_ERROR_NOENT (w\<lparr>errno := ENOENT\<rparr>))
                   | Some Blk \<Rightarrow> clone_verify bb rest zero_dev w
                   | Some nd \<Rightarrow> ((False, zero_dev), err BLOBSTORE_ERROR_INVAL w)))
         | BLOBSTORE_BLOCKBLOB \<Rightarrow>
             (case source_blob (source m) of
                None \<Rightarrow> ((False, zero_dev), err BLOBSTORE_ERROR_INVAL w)
              | Some sbb \<Rightarrow>
                  if bb_fd sbb = - 1 then ((False, zero_dev), err BLOBSTORE_ERROR_INVAL w)
                  else
                    (case Option.bind (map_of (open_fds w) (bb_fd sbb)) (map_of (fs w)) of
                       None \<Rightarrow> ((False, zero_dev),
                                 propagate_system_errno BLOBSTORE_ERROR_NOENT (w\<lparr>errno := EBADF\<rparr>))
                     | Some nd \<Rightarrow>
                         if st_size nd div 512 < size_blocks sbb
                         then ((False, zero_dev), err BLOBSTORE_ERROR_INVAL w)
                         else
                           (case map_of (fs w) (device_path sbb) of
                              None \<Rightarrow> ((False, zero_dev),
                                        propagate_system_errno BLOBSTORE_ERROR_NOENT
                                          (w\<lparr>errno := ENOENT\<rparr>))
                            | Some Blk \<Rightarrow>
                                if size_blocks sbb < first_block_src m + len_blocks m
                                then ((False, zero_dev), err BLOBSTORE_ERROR_INVAL w)
                                else if size_blocks bb < first_block_dst m + len_blocks m
                                then ((False, zero_dev), err BLOBSTORE_ERROR_INVAL w)
                                else if relation_type m = BLOBSTORE_SNAPSHOT \<and>
                                        len_blocks m < MIN_BLOCKS_SNAPSHOT
                                then ((False, zero_dev), err BLOBSTORE_ERROR_INVAL w)
                                else clone_verify bb rest zero_dev w
                            | Some nd2 \<Rightarrow> ((False, zero_dev), err BLOBSTORE_ERROR_INVAL w))))
         | BLOBSTORE_ZERO \<Rightarrow>
             if relation_type m \<noteq> BLOBSTORE_COPY then
               (case dm_get_zero w of
                  (None, w1) \<Rightarrow> ((False, None), w1)
                | (Some z, w1) \<Rightarrow> clone_verify bb rest (Some z) w1)
             else clone_verify bb rest zero_dev w))"

definition dm_prefix :: "string \<Rightarrow> string" where
  "dm_prefix dev = (if dev \<noteq> [] \<and> hd dev = CHR ''e'' then DM_PATH else [])"

definition granularity_of :: "nat \<Rightarrow> nat" where
  "granularity_of len =
     (if len mod 16 = 0 then 16 else if len mod 8 = 0 then 8
      else if len mod 4 = 0 then 4 else if len mod 2 = 0 then 2 else 1)"

text \<open>
  What the second loop builds: the names and tables of the auxiliary devices, the main
  table and the count \<^verbatim>\<open>mapped_or_snapshotted\<close>.
\<close>

record clone_tables =
  dev_names :: "string list"
  dm_tables :: "string list"
  main_dm_table :: string
  mapped_or_snapshotted :: nat

definition clone_map_entry :: "blockmap \<Rightarrow> string \<Rightarrow> nat \<Rightarrow> clone_tables \<Rightarrow> clone_tables" where
  "clone_map_entry m dev src_block t =
     t\<lparr>main_dm_table := main_dm_table t @ dec_nat (first_block_dst m) @ '' '' @
                          dec_nat (len_blocks m) @ '' linear '' @ dm_prefix dev @ dev @ '' '' @
                          dec_nat src_block @ [CHR 0x0A],
       mapped_or_snapshotted := mapped_or_snapshotted t + 1\<rparr>"

definition clone_snapshot_entry ::
  "blockblob \<Rightarrow> string \<Rightarrow> nat \<Rightarrow> blockmap \<Rightarrow> string \<Rightarrow> clone_tables \<Rightarrow> clone_tables"
where
  "clone_snapshot_entry bb dm_base i m dev t =
     (let backing_dev = dm_base @ ''-p'' @ dec_nat i @ ''-back'';
          back_table = ''0 '' @ dec_nat (len_blocks m) @ '' linear '' @ device_path bb @ '' '' @
                       dec_nat (first_block_dst m) @ [CHR 0x0A];
          with_real = (first_block_src m > 0 \<and> source_type m \<noteq> BLOBSTORE_ZERO);
          real_dev = dm_base @ ''-p'' @ dec_nat i @ ''-real'';
          real_table = ''0 '' @ dec_nat (len_blocks m) @ '' linear '' @ dev @ '' '' @
                       dec_nat (first_block_src m) @ [CHR 0x0A];
          snapshotted_dev = (if with_real then real_dev else dev);
          snap_dev = dm_base @ ''-p'' @ dec_nat i @ ''-snap'';
          snap_table = ''0 '' @ dec_nat (len_blocks m) @ '' snapshot '' @
                       dm_prefix snapshotted_dev @ snapshotted_dev @ '' '' @ DM_PATH @
                       backing_dev @ '' p '' @ dec_nat (granularity_of (len_blocks m)) @
                       [CHR 0x0A]
      in clone_map_entry m snap_dev 0
           (t\<lparr>dev_names := dev_names t @ [backing_dev] @
                             (if with_real then [real_dev] else []) @ [snap_dev],
              dm_tables := dm_tables t @ [back_table] @
                             (if with_real then [real_table] else []) @ [snap_table]\<rparr>))"

text \<open>
  The second loop, from entry \<open>i\<close> on: copies are made, the tables are computed.
  \<open>False\<close> is a jump to \<^verbatim>\<open>free\<close> with \<^verbatim>\<open>ret = -1\<close>.
\<close>

fun clone_exec ::
  "blockblob \<Rightarrow> string \<Rightarrow> string option \<Rightarrow> nat \<Rightarrow> blockmap list \<Rightarrow> clone_tables \<Rightarrow> world \<Rightarrow>
   (bool \<times> clone_tables) \<times> world"
where
  "clone_exec bb dm_base zero_dev i [] t w = ((True, t), w)"
| "clone_exec bb dm_base zero_dev i (m # rest) t w =
     (let dev = (case source_type m of
                   BLOBSTORE_DEVICE \<Rightarrow> source_device_path (source m)
                 | BLOBSTORE_BLOCKBLOB \<Rightarrow> map_option device_path (source_blob (source m))
                 | BLOBSTORE_ZERO \<Rightarrow> zero_dev)
      in case relation_type m of
           BLOBSTORE_COPY \<Rightarrow>
             (case diskutil_dd2 dev (device_path bb) 512 (len_blocks m) (first_block_dst m)
                     (first_block_src m) w of
                (ok, w1) \<Rightarrow>
                  if \<not> ok then ((False, t), err BLOBSTORE_ERROR_INVAL w1)
                  else clone_exec bb dm_base zero_dev (i + 1) rest
                         (t\<lparr>main_dm_table := main_dm_table t @ dec_nat (first_block_dst m) @
                                               '' '' @ dec_nat (len_blocks m) @ '' linear '' @
                                               device_path bb @ '' '' @
                                               dec_nat (first_block_dst m) @ [CHR 0x0A]\<rparr>) w1)
         | BLOBSTORE_SNAPSHOT \<Rightarrow>
             clone_exec bb dm_base zero_dev (i + 1) rest
               (clone_snapshot_entry bb dm_base i m (case dev of Some d \<Rightarrow> d | None \<Rightarrow> []) t) w
         | BLOBSTORE_MAP \<Rightarrow>
             clone_exec bb dm_base zero_dev (i + 1) rest
               (clone_map_entry m (case dev of Some d \<Rightarrow> d | None \<Rightarrow> []) (first_block_src m) t)
               w)"

text \<open>
  The third loop: the \<open>refs\<close> sidecar of every mapped or snapshotted source blob and the
  \<open>deps\<close> sidecar of the destination. -1 is a jump to \<^verbatim>\<open>cleanup\<close>.
\<close>

fun clone_refs_loop :: "blockblob \<Rightarrow> string \<Rightarrow> blockmap list \<Rightarrow> world \<Rightarrow> int \<times> world" where
  "clone_refs_loop bb my_ref [] w = (0, w)"
| "clone_refs_loop bb my_ref (m # rest) w =
     (if source_type m \<noteq> BLOBSTORE_BLOCKBLOB then clone_refs_loop bb my_ref rest w
      else if relation_type m = BLOBSTORE_COPY then clone_refs_loop bb my_ref rest w
      else
        (case source_blob (source m) of
           None \<Rightarrow> clone_refs_loop bb my_ref rest w
         | Some sbb \<Rightarrow>
             (case update_entry_blockblob_metadata_path BLOCKBLOB_PATH_REFS (store sbb) (bb_id sbb)
                     my_ref False w of
                (r1, w1) \<Rightarrow>
                  if r1 = - 1 then (- 1, w1)
                  else
                    (case update_entry_blockblob_metadata_path BLOCKBLOB_PATH_DEPS (store bb)
                            (bb_id bb) (bs_path (store sbb) @ '' '' @ bb_id sbb) False w1 of
                       (r2, w2) \<Rightarrow>
                         if r2 = - 1 then (- 1, w2)
                         else clone_refs_loop bb my_ref rest w2))))"

text \<open>
  The end of \<^verbatim>\<open>blockblob_clone\<close> when an entry was mapped or snapshotted: the devices
  are created and recorded. -1 after \<^verbatim>\<open>dm_create_devices\<close> failed is the jump to
  \<^verbatim>\<open>free\<close>, the other two are jumps to \<^verbatim>\<open>cleanup\<close>.
\<close>

definition blockblob_clone_dm ::
  "blockblob \<Rightarrow> string \<Rightarrow> blockmap list \<Rightarrow> clone_tables \<Rightarrow> world \<Rightarrow> (int \<times> blockblob option) \<times> world"
where
  "blockblob_clone_dm bb dm_base bmap t w =
     (let bb1 = bb\<lparr>dm_name := dm_base, device_path := DM_PATH @ dm_base\<rparr>;
          names = dev_names t @ [dm_base]
      in case dm_create_devices names (dm_tables t @ [main_dm_table t]) w of
           (r3, w3) \<Rightarrow>
             if r3 \<noteq> 0 then ((- 1, Some bb1), w3)
             else
               (case write_array_blockblob_metadata_path BLOCKBLOB_PATH_DM (store bb) (bb_id bb)
                       names w3 of
                  (r4, w4) \<Rightarrow>
                    if r4 = - 1 then ((- 1, Some bb1), snd (dm_delete_devices names w4))
                    else
                      (case clone_refs_loop bb (bs_path (store bb) @ '' '' @ bb_id bb) bmap w4 of
                         (r5, w5) \<Rightarrow>
                           if r5 = - 1 then ((- 1, Some bb1), snd (dm_delete_devices names w5))
                           else ((0, Some bb1), w5))))"

text \<open>
  \<^verbatim>\<open>blockblob_clone\<close>: the return value and the destination handle afterwards
  (\<^verbatim>\<open>dm_name\<close> and \<^verbatim>\<open>device_path\<close> may have changed). A NULL map is \<open>None\<close>.
  \<open>max_blockmap_size\<close> stands for \<^verbatim>\<open>MAX_BLOCKMAP_SIZE\<close> of the missing header.
\<close>

definition blockblob_clone ::
  "nat \<Rightarrow> blockblob option \<Rightarrow> blockmap list option \<Rightarrow> world \<Rightarrow> (int \<times> blockblob option) \<times> world"
where
  "blockblob_clone max_blockmap_size bb_opt map_opt w =
     (case bb_opt of
        None \<Rightarrow> ((- 1, None), err BLOBSTORE_ERROR_INVAL w)
      | Some bb \<Rightarrow>
          (case map_opt of
             None \<Rightarrow> ((- 1, Some bb), err BLOBSTORE_ERROR_INVAL w)
           | Some bmap \<Rightarrow>
               if length bmap < 1 \<or> length bmap > max_blockmap_size
               then ((- 1, Some bb), err BLOBSTORE_ERROR_INVAL w)
               else
                 (case clone_verify bb bmap None w of
                    ((verified, zero_dev), w1) \<Rightarrow>
                      if \<not> verified then ((- 1, Some bb), w1)
                      else
                        (let dm_base = ''euca-'' @
                                       map (\<lambda>c. if c = CHR ''/'' then CHR ''-'' else c) (bb_id bb)
                         in case clone_exec bb dm_base zero_dev 0 bmap
                                   \<lparr>dev_names = [], dm_tables = [], main_dm_table = [],
                                    mapped_or_snapshotted = 0\<rparr> w1 of
                              ((ok, t), w2) \<Rightarrow>
                                if \<not> ok then ((- 1, Some bb), w2)
                                else if mapped_or_snapshotted t = 0 then ((0, Some bb), w2)
                                else blockblob_clone_dm bb dm_base bmap t w2))))"

subsection \<open>Accessors\<close>

definition blockblob_get_dev :: "blockblob option \<Rightarrow> world \<Rightarrow> string option \<times> world" where
  "blockblob_get_dev bb_opt w =
     (case bb_opt of
        None \<Rightarrow> (None, err BLOBSTORE_ERROR_INVAL w)
      | Some bb \<Rightarrow> (Some (device_path bb), w))"

definition blockblob_get_file :: "blockblob option \<Rightarrow> world \<Rightarrow> string option \<times> world" where
  "blockblob_get_file bb_opt w =
     (case bb_opt of
        None \<Rightarrow> (None, err BLOBSTORE_ERROR_INVAL w)
      | Some bb \<Rightarrow>
          if snapshot_type bb \<noteq> BLOBSTORE_SNAPSHOT_ANY \<and> snapshot_type bb \<noteq> BLOBSTORE_SNAPSHOT_DM
          then (None, err BLOBSTORE_ERROR_INVAL w)
          else (Some (blocks_path bb), w))"

definition blockblob_get_size :: "blockblob option \<Rightarrow> world \<Rightarrow> nat \<times> world" where
  "blockblob_get_size bb_opt w =
     (case bb_opt of
        None \<Rightarrow> (0, err BLOBSTORE_ERROR_INVAL w)
      | Some bb \<Rightarrow> (size_blocks bb, w))"

section \<open>Properties\<close>

subsection \<open>Predicates and test worlds\<close>

text \<open>
  The table of an entry of the registry (its slots below \<open>next_fd\<close>) and the
  descriptors in it that are held, that is, whose slot has status 1.
\<close>

definition fd_table :: "blobstore_filelock \<Rightarrow> int list" where
  "fd_table l = take (next_fd l) (fd l)"

definition held_fds :: "blobstore_filelock \<Rightarrow> int list" where
  "held_fds l = map (\<lambda>i. fd l ! i) (filter (\<lambda>i. fd_status l ! i = 1) [0 ..< next_fd l])"

text \<open>
  What holds of the registry between two calls: the tables have the size of the C
  arrays, \<open>next_fd\<close> is in range (the code asserts it), the reference count is the number
  of held descriptors, and the descriptors in the tables, being open descriptors of the
  process, are non-negative and all different.
\<close>

definition filelock_ok :: "blobstore_filelock \<Rightarrow> bool" where
  "filelock_ok l =
     (next_fd l \<le> BLOBSTORE_MAX_CONCURRENT \<and> length (fd l) = BLOBSTORE_MAX_CONCURRENT \<and>
      length (fd_status l) = BLOBSTORE_MAX_CONCURRENT \<and> refs l = int (length (held_fds l)) \<and>
      list_all (\<lambda>d. 0 \<le> d) (fd_table l))"

definition registry_ok :: "world \<Rightarrow> bool" where
  "registry_ok w =
     (list_all filelock_ok (locks_list w) \<and>
      distinct (concat (map fd_table (locks_list w))))"

text \<open>
  The test worlds sort as a stable sort does, by insertion: an element goes before the
  elements listed after it that it compares equal to.
\<close>

fun insort_cmp :: "('a \<Rightarrow> 'a \<Rightarrow> int) \<Rightarrow> 'a \<Rightarrow> 'a list \<Rightarrow> 'a list" where
  "insort_cmp c x [] = [x]"
| "insort_cmp c x (y # ys) = (if c x y \<le> 0 then x # y # ys else y # insort_cmp c x ys)"

definition sort_cmp :: "('a \<Rightarrow> 'a \<Rightarrow> int) \<Rightarrow> 'a list \<Rightarrow> 'a list" where
  "sort_cmp c xs = foldr (insort_cmp c) xs []"

text \<open>
  The lock test of the source's own unit test: the file \<open>F3\<close>, opened read-only again
  and again. \<open>lock_test_opened k\<close> is the world after \<open>k\<close> such opens.
\<close>

definition F3 :: string where
  "F3 = ''/tmp/blobstore_test_3''"

definition lock_test_world :: world where
  "lock_test_world =
     \<lparr>blobstore_errno = BLOBSTORE_ERROR_OK, do_print_errors = True, errno = E_ZERO,
      locks_list = [], fs = [(''/tmp'', Dir), (F3, Reg [] 0)],
      open_fds = [], foreign_locks = [], now = 0, helper_calls = [],
      helper_ok = (\<lambda>c. True), loop_device = (\<lambda>p. ''/dev/loop0''),
      random_id = (\<lambda>t. ''000000000000000000000000''), qsort = sort_cmp\<rparr>"

definition F3_lock :: "nat \<Rightarrow> blobstore_filelock" where
  "F3_lock k =
     \<lparr>fl_path = F3, fl_type = F_RDLCK, refs = int k, next_fd = k,
      fd = map int [0 ..< k] @ replicate (BLOBSTORE_MAX_CONCURRENT - k) 0,
      fd_status = replicate k 1 @ replicate (BLOBSTORE_MAX_CONCURRENT - k) 0,
      rw_lock = RW_READERS k\<rparr>"

definition lock_test_opened :: "nat \<Rightarrow> world" where
  "lock_test_opened k =
     lock_test_world\<lparr>locks_list := (if k = 0 then [] else [F3_lock k]),
                    open_fds := map (\<lambda>i. (int i, F3)) (rev [0 ..< k])\<rparr>"

fun open_many :: "nat \<Rightarrow> string \<Rightarrow> blobstore_flag set \<Rightarrow> world \<Rightarrow> (int list \<times> world) option" where
  "open_many 0 p flags w = Some ([], w)"
| "open_many (Suc n) p flags w =
     (case open_and_lock p flags 0 0 w of
        None \<Rightarrow> None
      | Some (d, w1) \<Rightarrow>
          (case open_many n p flags w1 of
             None \<Rightarrow> None
           | Some (ds, w2) \<Rightarrow> Some (d # ds, w2)))"

text \<open>
  The store of the source's unit test (\<open>BS_SIZE\<close> 30 blocks, files format) and a world
  with the store directory and its descriptor file.
\<close>

definition test_store :: blobstore where
  "test_store =
     \<lparr>bs_id = ''000000000000000000000000'', bs_path = ''/bs'', limit_blocks = 30,
      revocation_policy = BLOBSTORE_REVOCATION_NONE, snapshot_policy = BLOBSTORE_SNAPSHOT_DM,
      format = BLOBSTORE_FORMAT_FILES, bs_fd = - 1\<rparr>"

text \<open>The path of a sidecar, as \<^verbatim>\<open>set_blockblob_metadata_path\<close> composes it.\<close>

definition sidecar_path :: "blockblob_path_t \<Rightarrow> blobstore \<Rightarrow> string \<Rightarrow> string" where
  "sidecar_path path_t bs blob_id =
     bs_path bs @ ''/'' @ blob_id @
     (if format bs = BLOBSTORE_FORMAT_DIRECTORY then ''/'' else ''.'') @
     blobstore_metadata_suffixes path_t"

definition store_world :: world where
  "store_world =
     lock_test_world\<lparr>fs := [(''/bs'', Dir), (''/bs/.blobstore'', Reg [] 0)]\<rparr>"

text \<open>
  The blobs of the source's clone test, in the test store: \<open>B4\<close> of 96 blocks on
  \<open>/dev/loop0\<close>, the destination, and \<open>B2\<close> of 32 blocks on \<open>/dev/loop1\<close>, a source; both
  open. \<open>/dev/sdb\<close> is some other block device.
\<close>

definition clone_world :: world where
  "clone_world =
     lock_test_world
       \<lparr>fs := [(''/bs'', Dir), (''/bs/.blobstore'', Reg [] 0),
               (''/bs/B4.blocks'', Reg (replicate (96 * 512) (CHR 0x00)) 0),
               (''/bs/B2.blocks'', Reg (replicate (32 * 512) (CHR 0x00)) 0),
               (''/dev/loop0'', Blk), (''/dev/loop1'', Blk), (''/dev/sdb'', Blk)],
        open_fds := [(3, ''/bs/B4.blocks''), (4, ''/bs/B2.blocks'')]\<rparr>"

definition blob_B4 :: blockblob where
  "blob_B4 =
     \<lparr>store = test_store, bb_id = ''B4'', blocks_path = ''/bs/B4.blocks'',
      device_path = ''/dev/loop0'', dm_name = [], size_blocks = 96, in_use = {},
      last_accessed = 0, last_modified = 0, snapshot_type = BLOBSTORE_SNAPSHOT_ANY, bb_fd = 3\<rparr>"

definition blob_B2 :: blockblob where
  "blob_B2 =
     \<lparr>store = test_store, bb_id = ''B2'', blocks_path = ''/bs/B2.blocks'',
      device_path = ''/dev/loop1'', dm_name = [], size_blocks = 32, in_use = {},
      last_accessed = 0, last_modified = 0, snapshot_type = BLOBSTORE_SNAPSHOT_ANY, bb_fd = 4\<rparr>"

definition is_dd2 :: "helper_call \<Rightarrow> bool" where
  "is_dd2 c = (case c of DISKUTIL_DD2 src dst bsize cnt seek skip \<Rightarrow> True | _ \<Rightarrow> False)"

definition copy_from_B2 :: blockmap where
  "copy_from_B2 =
     \<lparr>relation_type = BLOBSTORE_COPY, source_type = BLOBSTORE_BLOCKBLOB,
      source = Source_blob (Some blob_B2),
      first_block_src = 0, first_block_dst = 32, len_blocks = 32\<rparr>"

text \<open>
  Three entries that copy 32 blocks to the blocks 90 to 121 of the destination, which
  has 96: from a device, from nothing but zeros, and from the blob \<open>B2\<close>.
\<close>

definition past_end_from_device :: blockmap where
  "past_end_from_device =
     \<lparr>relation_type = BLOBSTORE_COPY, source_type = BLOBSTORE_DEVICE,
      source = Source_device_path (Some ''/dev/sdb''),
      first_block_src = 0, first_block_dst = 90, len_blocks = 32\<rparr>"

definition past_end_from_zero :: blockmap where
  "past_end_from_zero =
     \<lparr>relation_type = BLOBSTORE_COPY, source_type = BLOBSTORE_ZERO,
      source = Source_blob None,
      first_block_src = 0, first_block_dst = 90, len_blocks = 32\<rparr>"

definition past_end_from_B2 :: blockmap where
  "past_end_from_B2 =
     \<lparr>relation_type = BLOBSTORE_COPY, source_type = BLOBSTORE_BLOCKBLOB,
      source = Source_blob (Some blob_B2),
      first_block_src = 0, first_block_dst = 90, len_blocks = 32\<rparr>"









text \<open>
  A file tree: no node has the empty path, and each node is in a directory (or at the
  top). \<open>fs_step\<close> relates two states of the file system when, the first being a file
  tree, the second is one too and has no directory that the first has not.
\<close>

definition fs_tree :: "(string \<times> node) list \<Rightarrow> bool" where
  "fs_tree f = list_all (\<lambda>(k, n). k \<noteq> [] \<and> is_dir f (parent_dir k)) f"

definition fs_step :: "(string \<times> node) list \<Rightarrow> (string \<times> node) list \<Rightarrow> bool" where
  "fs_step f f' =
     (fs_tree f \<longrightarrow> fs_tree f' \<and> (\<forall>p. map_of f' p = Some Dir \<longrightarrow> map_of f p = Some Dir))"






subsection \<open>The file lock registry at capacity\<close>

lemma open_and_lock_full:
  assumes "the_lock p w = Some l" "next_fd l = BLOBSTORE_MAX_CONCURRENT"
    "lock_type_of_flags flags \<noteq> None"
  shows "open_and_lock p flags t m w = Some (- 1, err BLOBSTORE_ERROR_MFILE w)"
  using assms unfolding open_and_lock_def by (auto simp add: Let_def)

lemma find_SomeP: "List.find P xs = Some x \<Longrightarrow> P x"
  by (auto simp: find_Some_iff)

lemma find_Some_in: "List.find P xs = Some x \<Longrightarrow> x \<in> set xs"
  by (auto simp: find_Some_iff)

lemma find_upd_first_same:
  "List.find P ls = Some l \<Longrightarrow> List.find Q ls = Some l \<Longrightarrow> (\<And>x. P (f x) = P x)
   \<Longrightarrow> List.find P (upd_first Q f ls) = Some (f l)"
proof (induction ls)
  case Nil
  then show ?case by simp
next
  case (Cons x xs)
  show ?case
  proof (cases "Q x")
    case True
    with Cons.prems(2) have "x = l" by simp
    moreover from Cons.prems(1) have "P l" by (rule find_SomeP)
    ultimately show ?thesis using True Cons.prems(3) by simp
  next
    case False
    with Cons.prems(2) have q: "List.find Q xs = Some l" by simp
    then have "Q l" by (rule find_SomeP)
    with False have "x \<noteq> l" by auto
    with Cons.prems(1) have "\<not> P x" by auto
    with Cons.prems(1) have "List.find P xs = Some l" by simp
    with Cons.IH q Cons.prems(3) False \<open>\<not> P x\<close> show ?thesis by simp
  qed
qed

lemma has_fd_iff:
  "next_fd l \<le> length (fd l) \<Longrightarrow> has_fd d l \<longleftrightarrow> d \<in> set (fd_table l)"
  unfolding has_fd_def fd_index_def fd_table_def
  by (auto simp: find_None_iff in_set_conv_nth)

lemma find_has_fd:
  assumes "l \<in> set ls" "d \<in> set (fd_table l)" "distinct (concat (map fd_table ls))"
    "list_all filelock_ok ls"
  shows "List.find (has_fd d) ls = Some l"
  using assms
proof (induction ls)
  case Nil
  then show ?case by simp
next
  case (Cons x xs)
  have lx: "next_fd x \<le> length (fd x)" using Cons.prems(4) by (simp add: filelock_ok_def)
  have ll: "next_fd l \<le> length (fd l)" using Cons.prems(1,4)
    by (auto simp: filelock_ok_def list_all_iff)
  show ?case
  proof (cases "has_fd d x")
    case True
    then have dx: "d \<in> set (fd_table x)" using lx by (simp add: has_fd_iff)
    have "l \<notin> set xs"
    proof
      assume "l \<in> set xs"
      then have "d \<in> set (concat (map fd_table xs))" using Cons.prems(2) by auto
      with dx Cons.prems(3) show False by auto
    qed
    with Cons.prems(1) have "x = l" by auto
    with True show ?thesis by simp
  next
    case False
    have "has_fd d l" using Cons.prems(2) ll by (simp add: has_fd_iff)
    with False have "l \<noteq> x" by auto
    with Cons.prems(1) have "l \<in> set xs" by auto
    with Cons.IH Cons.prems False show ?thesis by simp
  qed
qed

lemma held_slot:
  assumes "d \<in> set (held_fds l)" "distinct (fd_table l)" "next_fd l \<le> length (fd l)"
  shows "\<exists>i. fd_index d l = Some i \<and> fd_status l ! i = 1 \<and> d \<in> set (fd_table l)"
proof -
  from assms(1) obtain i where i: "i < next_fd l" "fd_status l ! i = 1" "fd l ! i = d"
    by (auto simp: held_fds_def)
  then have "\<exists>j. fd_index d l = Some j"
    unfolding fd_index_def by (cases "List.find (\<lambda>i. fd l ! i = d) [0..<next_fd l]") (auto simp: find_None_iff)
  then obtain j where j: "fd_index d l = Some j" by blast
  then have jj: "j < next_fd l" "fd l ! j = d"
    unfolding fd_index_def by (auto simp: find_Some_iff)
  have "fd_table l ! i = fd_table l ! j" using i jj assms(3) by (simp add: fd_table_def)
  moreover have "i < length (fd_table l)" "j < length (fd_table l)"
    using i jj assms(3) by (simp_all add: fd_table_def)
  ultimately have "i = j" using assms(2) by (simp add: nth_eq_iff_index_eq)
  moreover have "d \<in> set (fd_table l)" using i assms(3)
    by (auto simp: fd_table_def in_set_conv_nth intro!: exI[of _ i])
  ultimately show ?thesis using i j by auto
qed

lemma close_keeps_full:
  assumes l: "the_lock p w = Some l" and ok: "registry_ok w"
    and d: "d \<in> set (held_fds l)" and r: "refs l \<noteq> 1"
  shows "\<exists>w' l'. close_and_unlock d w = Some (0, w') \<and> the_lock p w' = Some l' \<and>
           next_fd l' = next_fd l"
proof -
  have lin: "l \<in> set (locks_list w)" using l unfolding the_lock_def by (rule find_Some_in)
  have fok: "filelock_ok l" using ok lin by (auto simp: registry_ok_def list_all_iff)
  have len: "next_fd l \<le> length (fd l)" using fok by (simp add: filelock_ok_def)
  have dist: "distinct (fd_table l)" using ok lin
    by (auto simp: registry_ok_def distinct_concat_iff)
  from held_slot [OF d dist len] obtain i where
    i: "fd_index d l = Some i" "fd_status l ! i = 1" "d \<in> set (fd_table l)" by blast
  have d0: "\<not> d < 0" using i(3) fok by (auto simp: filelock_ok_def list_all_iff)
  have fnd: "List.find (has_fd d) (locks_list w) = Some l"
    using find_has_fd [OF lin i(3)] ok by (simp add: registry_ok_def)
  have ah: "asserts_hold d (locks_list w)"
    using ok unfolding asserts_hold_def registry_ok_def filelock_ok_def list_all_iff
    by (auto dest: set_takeWhileD in_set_takeD in_set_dropD set_dropWhileD)
  let ?f = "\<lambda>l. l\<lparr>fd_status := (fd_status l)[i := 0], refs := refs l - 1\<rparr>"
  let ?w = "w\<lparr>locks_list := upd_first (has_fd d) ?f (locks_list w)\<rparr>"
  have c: "close_and_unlock d w = Some (0, ?w)"
    unfolding close_and_unlock_def using d0 ah fnd i r by simp
  have "the_lock p ?w = Some (?f l)"
    unfolding the_lock_def using find_upd_first_same [of "\<lambda>l. fl_path l = p" "locks_list w" l "has_fd d" ?f]
      l fnd by (simp add: the_lock_def)
  with c show ?thesis by auto
qed

lemma fresh_fd_opened: "fresh_fd (map (\<lambda>i. (int i, q)) (rev [0 ..< k])) = int k"
proof -
  have "filter (\<lambda>d. d \<notin> int ` {0 ..< k}) (map int [0 ..< k]) = []"
    by (auto simp: filter_empty_conv)
  moreover have "int k \<notin> int ` {0 ..< k}" by auto
  ultimately show ?thesis
    unfolding fresh_fd_def by (simp add: comp_def image_image)
qed

lemma table_append:
  "length xs = k \<Longrightarrow> k < n \<Longrightarrow>
   (xs @ replicate (n - k) z)[k := v] = (xs @ [v]) @ replicate (n - Suc k) z"
proof -
  assume a: "length xs = k" "k < n"
  then have "n - k = Suc (n - Suc k)" by simp
  then show ?thesis using a by (simp add: list_update_append)
qed

lemma open_step:
  assumes "k < BLOBSTORE_MAX_CONCURRENT"
  shows "open_and_lock F3 {BLOBSTORE_FLAG_RDONLY} 0 0 (lock_test_opened k)
         = Some (int k, lock_test_opened (Suc k))"
proof (cases "k = 0")
  case True
  have t: "(replicate BLOBSTORE_MAX_CONCURRENT 0)[0 := 0::int]
           = [0] @ replicate (BLOBSTORE_MAX_CONCURRENT - Suc 0) 0"
    using table_append [of "[]" 0 BLOBSTORE_MAX_CONCURRENT "0::int" 0] assms by simp
  have u: "(replicate BLOBSTORE_MAX_CONCURRENT 0)[0 := 1::int]
           = [1] @ replicate (BLOBSTORE_MAX_CONCURRENT - Suc 0) 0"
    using table_append [of "[]" 0 BLOBSTORE_MAX_CONCURRENT "0::int" 1] assms by simp
  show ?thesis
    unfolding open_and_lock_def using True t u assms
    by (simp add: lock_test_opened_def lock_test_world_def lock_type_of_flags_def the_lock_def
        sys_open_def upd_lock_def calloc_filelock_def fresh_fd_def time_usec_def Let_def
        open_and_lock_wait.simps pthread_rwlock_try_def fcntl_setlk_def F3_lock_def F3_def)
next
  case False
  have t: "(map int [0 ..< k] @ replicate (BLOBSTORE_MAX_CONCURRENT - k) 0)[k := int k]
           = map int [0 ..< Suc k] @ replicate (BLOBSTORE_MAX_CONCURRENT - Suc k) 0"
    using table_append [of "map int [0 ..< k]" k BLOBSTORE_MAX_CONCURRENT 0 "int k"] assms by simp
  have u: "(replicate k 1 @ replicate (BLOBSTORE_MAX_CONCURRENT - k) 0)[k := 1::int]
           = replicate (Suc k) 1 @ replicate (BLOBSTORE_MAX_CONCURRENT - Suc k) 0"
    using table_append [of "replicate k 1" k BLOBSTORE_MAX_CONCURRENT 0 "1::int"] assms
    by (simp add: replicate_append_same)
  show ?thesis
    unfolding open_and_lock_def using False assms t u
    by (simp add: lock_test_opened_def lock_test_world_def lock_type_of_flags_def the_lock_def
        sys_open_def upd_lock_def fresh_fd_opened time_usec_def
        open_and_lock_wait.simps pthread_rwlock_try_def fcntl_setlk_def F3_lock_def F3_def)
qed

lemma open_many_opened:
  "k + n \<le> BLOBSTORE_MAX_CONCURRENT \<Longrightarrow>
   open_many n F3 {BLOBSTORE_FLAG_RDONLY} (lock_test_opened k)
   = Some (map int [k ..< k + n], lock_test_opened (k + n))"
proof (induction n arbitrary: k)
  case 0
  then show ?case by simp
next
  case (Suc n)
  then have "k < BLOBSTORE_MAX_CONCURRENT" "Suc k + n \<le> BLOBSTORE_MAX_CONCURRENT" by simp_all
  with Suc.IH [of "Suc k"] show ?case
    by (simp add: open_step upt_conv_Cons)
qed

lemma held_fds_F3_lock:
  "k \<le> BLOBSTORE_MAX_CONCURRENT \<Longrightarrow> held_fds (F3_lock k) = map int [0 ..< k]"
  unfolding held_fds_def F3_lock_def
  by (simp add: nth_append cong: map_cong filter_cong)

lemma registry_ok_opened:
  "k \<le> BLOBSTORE_MAX_CONCURRENT \<Longrightarrow> registry_ok (lock_test_opened k)"
  unfolding registry_ok_def lock_test_opened_def filelock_ok_def
  by (simp add: held_fds_F3_lock)
     (simp add: F3_lock_def fd_table_def distinct_map list_all_iff)

text \<open>
  Claim C1, as the code has it. When \<open>BLOBSTORE_MAX_CONCURRENT\<close> descriptors of a path
  are held, \<^verbatim>\<open>open_and_lock\<close> on the path fails with \<open>BLOBSTORE_ERROR_MFILE\<close>; and after
  \<^verbatim>\<open>close_and_unlock\<close> of any one of the held descriptors it still fails with
  \<open>BLOBSTORE_ERROR_MFILE\<close>: the slot of a closed descriptor is marked unused but
  \<open>next_fd\<close> never goes down, so the table stays full until the last descriptor of the
  path is closed and the entry is freed.
\<close>

theorem open_and_lock_at_capacity:
  assumes "registry_ok w" and "the_lock p w = Some l"
    and "length (held_fds l) = BLOBSTORE_MAX_CONCURRENT"
    and "lock_type_of_flags flags \<noteq> None"
  shows "open_and_lock p flags t m w = Some (- 1, err BLOBSTORE_ERROR_MFILE w) \<and>
         (\<forall>d \<in> set (held_fds l). \<exists>w'.
            close_and_unlock d w = Some (0, w') \<and>
            open_and_lock p flags t m w' = Some (- 1, err BLOBSTORE_ERROR_MFILE w'))"
proof -
  have lin: "l \<in> set (locks_list w)" using assms(2) unfolding the_lock_def by (rule find_Some_in)
  have fok: "filelock_ok l" using assms(1) lin by (auto simp: registry_ok_def list_all_iff)
  have "length (held_fds l) \<le> next_fd l"
    unfolding held_fds_def using length_filter_le [of _ "[0 ..< next_fd l]"] by simp
  with fok assms(3) have full: "next_fd l = BLOBSTORE_MAX_CONCURRENT"
    by (simp add: filelock_ok_def)
  have r: "refs l \<noteq> 1" using fok assms(3) by (simp add: filelock_ok_def BLOBSTORE_MAX_CONCURRENT_def)
  have a: "open_and_lock p flags t m w = Some (- 1, err BLOBSTORE_ERROR_MFILE w)"
    using open_and_lock_full [OF assms(2) full assms(4)] .
  have b: "\<exists>w'. close_and_unlock d w = Some (0, w') \<and>
            open_and_lock p flags t m w' = Some (- 1, err BLOBSTORE_ERROR_MFILE w')"
    if d: "d \<in> set (held_fds l)" for d
  proof -
    from close_keeps_full [OF assms(2) assms(1) d r] obtain w' l' where
      c: "close_and_unlock d w = Some (0, w')" "the_lock p w' = Some l'" "next_fd l' = next_fd l"
      by blast
    from open_and_lock_full [OF c(2) _ assms(4)] c(3) full
    have "open_and_lock p flags t m w' = Some (- 1, err BLOBSTORE_ERROR_MFILE w')" by simp
    with c(1) show ?thesis by blast
  qed
  from a b show ?thesis by blast
qed

lemma the_lock_opened: "0 < k \<Longrightarrow> the_lock F3 (lock_test_opened k) = Some (F3_lock k)"
  by (simp add: the_lock_def lock_test_opened_def F3_lock_def)

theorem open_and_lock_at_capacity_witness:
  "registry_ok (lock_test_opened 99) \<and>
   the_lock F3 (lock_test_opened 99) = Some (F3_lock 99) \<and>
   length (held_fds (F3_lock 99)) = BLOBSTORE_MAX_CONCURRENT \<and>
   lock_type_of_flags {BLOBSTORE_FLAG_RDONLY} \<noteq> None \<and>
   open_and_lock F3 {BLOBSTORE_FLAG_RDONLY} 0 0 (lock_test_opened 99)
     = Some (- 1, err BLOBSTORE_ERROR_MFILE (lock_test_opened 99)) \<and>
   (\<exists>w'. close_and_unlock 42 (lock_test_opened 99) = Some (0, w') \<and>
      open_and_lock F3 {BLOBSTORE_FLAG_RDONLY} 0 0 w'
        = Some (- 1, err BLOBSTORE_ERROR_MFILE w'))"
proof -
  have ok: "registry_ok (lock_test_opened 99)"
    by (rule registry_ok_opened) (simp add: BLOBSTORE_MAX_CONCURRENT_def)
  have l: "the_lock F3 (lock_test_opened 99) = Some (F3_lock 99)"
    by (rule the_lock_opened) simp
  have h: "held_fds (F3_lock 99) = map int [0 ..< 99]"
    by (rule held_fds_F3_lock) (simp add: BLOBSTORE_MAX_CONCURRENT_def)
  have n: "length (held_fds (F3_lock 99)) = BLOBSTORE_MAX_CONCURRENT"
    by (simp add: h BLOBSTORE_MAX_CONCURRENT_def)
  have f: "lock_type_of_flags {BLOBSTORE_FLAG_RDONLY} \<noteq> None"
    by (simp add: lock_type_of_flags_def)
  have m: "(42::int) \<in> set (held_fds (F3_lock 99))"
    unfolding h by (simp add: image_iff)
  from open_and_lock_at_capacity [OF ok l n f, of 0 0] m ok l n f show ?thesis
    by blast
qed

text \<open>
  The counterexample to C1 as stated: 99 read-only opens of \<open>F3\<close> succeed (descriptors
  0 to 98), descriptor 9 is closed with success, and the next open fails with
  \<open>BLOBSTORE_ERROR_MFILE\<close>.
\<close>

theorem open_and_lock_reopen_counterexample:
  "open_many 99 F3 {BLOBSTORE_FLAG_RDONLY} lock_test_world
     = Some (map int [0 ..< 99], lock_test_opened 99) \<and>
   (\<exists>w'. close_and_unlock 9 (lock_test_opened 99) = Some (0, w') \<and>
      open_and_lock F3 {BLOBSTORE_FLAG_RDONLY} 0 0 w'
        = Some (- 1, err BLOBSTORE_ERROR_MFILE w'))"
proof -
  have z: "lock_test_opened 0 = lock_test_world"
    by (simp add: lock_test_opened_def lock_test_world_def)
  have a: "open_many 99 F3 {BLOBSTORE_FLAG_RDONLY} lock_test_world
     = Some (map int [0 ..< 99], lock_test_opened 99)"
    using open_many_opened [of 0 99] by (simp add: z BLOBSTORE_MAX_CONCURRENT_def)
  have ok: "registry_ok (lock_test_opened 99)"
    by (rule registry_ok_opened) (simp add: BLOBSTORE_MAX_CONCURRENT_def)
  have l: "the_lock F3 (lock_test_opened 99) = Some (F3_lock 99)"
    by (rule the_lock_opened) simp
  have h: "held_fds (F3_lock 99) = map int [0 ..< 99]"
    by (rule held_fds_F3_lock) (simp add: BLOBSTORE_MAX_CONCURRENT_def)
  have m: "(9::int) \<in> set (held_fds (F3_lock 99))"
    unfolding h by (simp add: image_iff)
  have r: "refs (F3_lock 99) \<noteq> 1" by (simp add: F3_lock_def)
  from close_keeps_full [OF l ok m r] obtain w' l' where
    c: "close_and_unlock 9 (lock_test_opened 99) = Some (0, w')" "the_lock F3 w' = Some l'"
       "next_fd l' = next_fd (F3_lock 99)" by blast
  have "next_fd l' = BLOBSTORE_MAX_CONCURRENT"
    using c(3) by (simp add: F3_lock_def BLOBSTORE_MAX_CONCURRENT_def)
  from open_and_lock_full [OF c(2) this, of "{BLOBSTORE_FLAG_RDONLY}" 0 0]
  have "open_and_lock F3 {BLOBSTORE_FLAG_RDONLY} 0 0 w'
        = Some (- 1, err BLOBSTORE_ERROR_MFILE w')"
    by (simp add: lock_type_of_flags_def)
  with a c(1) show ?thesis by blast
qed

subsection \<open>Flags of \<^verbatim>\<open>open_and_lock\<close>\<close>

lemma lock_type_of_flags_excl:
  "BLOBSTORE_FLAG_CREAT \<notin> flags \<Longrightarrow>
   lock_type_of_flags (flags - {BLOBSTORE_FLAG_EXCL}) = lock_type_of_flags flags"
  by (simp add: lock_type_of_flags_def)

lemma fresh_fd_nonneg:
  "0 \<le> fresh_fd fds"
proof -
  define c where "c = map int [0 ..< Suc (length fds)]"
  define P where "P = (\<lambda>d. d \<notin> set (map fst fds))"
  have dc: "distinct c" unfolding c_def by (simp add: distinct_map del: upt_Suc)
  have lc: "length c = Suc (length fds)" unfolding c_def by (simp del: upt_Suc)
  have pos: "\<forall>d \<in> set c. 0 \<le> d" unfolding c_def by (auto simp del: upt_Suc)
  have "filter P c \<noteq> []"
  proof
    assume "filter P c = []"
    then have "\<forall>d \<in> set c. d \<in> set (map fst fds)"
      unfolding filter_empty_conv P_def by blast
    then have "set c \<subseteq> set (map fst fds)" by blast
    then have "card (set c) \<le> card (set (map fst fds))" by (intro card_mono) auto
    moreover have "card (set c) = Suc (length fds)"
      using distinct_card [OF dc] lc by simp
    moreover have "card (set (map fst fds)) \<le> length fds"
      using card_length [of "map fst fds"] by simp
    ultimately show False by simp
  qed
  then have "hd (filter P c) \<in> set (filter P c)" by (rule hd_in_set)
  then have "hd (filter P c) \<in> set c" by simp
  with pos have "0 \<le> hd (filter P c)" by blast
  then show ?thesis unfolding fresh_fd_def c_def P_def .
qed

lemma find_append_new:
  "List.find P xs = None \<Longrightarrow> P y \<Longrightarrow> List.find P (xs @ [y]) = Some y"
  by (induction xs) (auto split: if_splits)

lemma upd_first_append_new:
  "List.find P xs = None \<Longrightarrow> P y \<Longrightarrow> upd_first P f (xs @ [y]) = xs @ [f y]"
  by (induction xs) (auto split: if_splits)

lemma open_and_lock_wrlck_new:
  assumes lt: "lock_type_of_flags flags = Some (F_WRLCK, {O_RDWR})"
    and reg: "map_of (fs w) p = Some (Reg s mt)" and p: "p \<noteq> []"
    and free: "the_lock p w = None"
    and nolock: "\<not> list_ex (\<lambda>(q, lt). q = p) (foreign_locks w)"
  shows "open_and_lock p flags t m w
         = Some (fresh_fd (open_fds w),
                 w\<lparr>errno := E_ZERO,
                   locks_list := locks_list w @
                     [\<lparr>fl_path = p, fl_type = F_WRLCK, refs = 1, next_fd = 1,
                       fd = (replicate BLOBSTORE_MAX_CONCURRENT 0)[0 := fresh_fd (open_fds w)],
                       fd_status = (replicate BLOBSTORE_MAX_CONCURRENT 0)[0 := 1],
                       rw_lock = RW_WRITER\<rparr>],
                   open_fds := (fresh_fd (open_fds w), p) # open_fds w\<rparr>)"
proof -
  let ?d = "fresh_fd (open_fds w)"
  have d: "?d \<noteq> - 1" using fresh_fd_nonneg [of "open_fds w"] by simp
  have f: "List.find (\<lambda>l. fl_path l = p) (locks_list w) = None"
    using free by (simp add: the_lock_def)
  have nl: "\<not> list_ex (\<lambda>(q, lt). q = p \<and> (F_WRLCK = F_WRLCK \<or> lt = F_WRLCK)) (foreign_locks w)"
    using nolock by (auto simp: list_ex_iff)
  show ?thesis
    unfolding open_and_lock_def
    using lt reg p free d f nl
    by (simp add: Let_def the_lock_def upd_lock_def sys_open_def calloc_filelock_def
          open_and_lock_wait.simps pthread_rwlock_try_def fcntl_setlk_def
          find_append_new upd_first_append_new BLOBSTORE_MAX_CONCURRENT_def)
qed

text \<open>
  Claim C9, as the code has it. With \<open>BLOBSTORE_FLAG_EXCL\<close> but without
  \<open>BLOBSTORE_FLAG_CREAT\<close>, \<^verbatim>\<open>open_and_lock\<close> does what the same call without
  \<open>BLOBSTORE_FLAG_EXCL\<close> does. With \<open>BLOBSTORE_FLAG_RDWR\<close> and no \<open>BLOBSTORE_FLAG_RDONLY\<close>
  that is a write-locked open of the existing file: when the path names a regular file
  that no thread of the process has open and no other process has locked, the call
  returns a new descriptor, not -1; the file system is as before; the descriptor is open
  on the path; the registry has a new entry for the path, of type \<open>F_WRLCK\<close>, held by a
  writer, with the descriptor in its first slot.
\<close>

theorem open_and_lock_excl_ignored:
  assumes "BLOBSTORE_FLAG_EXCL \<in> flags" and "BLOBSTORE_FLAG_CREAT \<notin> flags"
  shows "open_and_lock p flags t m w = open_and_lock p (flags - {BLOBSTORE_FLAG_EXCL}) t m w \<and>
         (BLOBSTORE_FLAG_RDWR \<in> flags \<and> BLOBSTORE_FLAG_RDONLY \<notin> flags \<and>
          p \<noteq> [] \<and> map_of (fs w) p = Some (Reg s mt) \<and> the_lock p w = None \<and>
          \<not> list_ex (\<lambda>(q, lt). q = p) (foreign_locks w) \<longrightarrow>
            0 \<le> fresh_fd (open_fds w) \<and>
            open_and_lock p flags t m w
              = Some (fresh_fd (open_fds w),
                      w\<lparr>errno := E_ZERO,
                        locks_list := locks_list w @
                          [\<lparr>fl_path = p, fl_type = F_WRLCK, refs = 1, next_fd = 1,
                            fd = (replicate BLOBSTORE_MAX_CONCURRENT 0)
                                   [0 := fresh_fd (open_fds w)],
                            fd_status = (replicate BLOBSTORE_MAX_CONCURRENT 0)[0 := 1],
                            rw_lock = RW_WRITER\<rparr>],
                        open_fds := (fresh_fd (open_fds w), p) # open_fds w\<rparr>))"
proof (intro conjI impI)
  show "open_and_lock p flags t m w = open_and_lock p (flags - {BLOBSTORE_FLAG_EXCL}) t m w"
    using assms unfolding open_and_lock_def by (simp add: lock_type_of_flags_excl)
next
  assume "BLOBSTORE_FLAG_RDWR \<in> flags \<and> BLOBSTORE_FLAG_RDONLY \<notin> flags \<and>
          p \<noteq> [] \<and> map_of (fs w) p = Some (Reg s mt) \<and> the_lock p w = None \<and>
          \<not> list_ex (\<lambda>(q, lt). q = p) (foreign_locks w)"
  then show "0 \<le> fresh_fd (open_fds w)" by (simp add: fresh_fd_nonneg)
next
  assume a: "BLOBSTORE_FLAG_RDWR \<in> flags \<and> BLOBSTORE_FLAG_RDONLY \<notin> flags \<and>
          p \<noteq> [] \<and> map_of (fs w) p = Some (Reg s mt) \<and> the_lock p w = None \<and>
          \<not> list_ex (\<lambda>(q, lt). q = p) (foreign_locks w)"
  with assms have "lock_type_of_flags flags = Some (F_WRLCK, {O_RDWR})"
    by (simp add: lock_type_of_flags_def)
  with a show "open_and_lock p flags t m w
              = Some (fresh_fd (open_fds w),
                      w\<lparr>errno := E_ZERO,
                        locks_list := locks_list w @
                          [\<lparr>fl_path = p, fl_type = F_WRLCK, refs = 1, next_fd = 1,
                            fd = (replicate BLOBSTORE_MAX_CONCURRENT 0)
                                   [0 := fresh_fd (open_fds w)],
                            fd_status = (replicate BLOBSTORE_MAX_CONCURRENT 0)[0 := 1],
                            rw_lock = RW_WRITER\<rparr>],
                        open_fds := (fresh_fd (open_fds w), p) # open_fds w\<rparr>)"
    by (intro open_and_lock_wrlck_new) simp_all
qed

theorem open_and_lock_excl_ignored_witness:
  "BLOBSTORE_FLAG_EXCL \<in> {BLOBSTORE_FLAG_RDWR, BLOBSTORE_FLAG_EXCL} \<and>
   BLOBSTORE_FLAG_CREAT \<notin> {BLOBSTORE_FLAG_RDWR, BLOBSTORE_FLAG_EXCL} \<and>
   BLOBSTORE_FLAG_RDWR \<in> {BLOBSTORE_FLAG_RDWR, BLOBSTORE_FLAG_EXCL} \<and>
   BLOBSTORE_FLAG_RDONLY \<notin> {BLOBSTORE_FLAG_RDWR, BLOBSTORE_FLAG_EXCL} \<and>
   map_of (fs lock_test_world) F3 = Some (Reg [] 0) \<and>
   the_lock F3 lock_test_world = None \<and>
   foreign_locks lock_test_world = [] \<and>
   open_and_lock F3 {BLOBSTORE_FLAG_RDWR, BLOBSTORE_FLAG_EXCL} 0 0 lock_test_world
     = open_and_lock F3 {BLOBSTORE_FLAG_RDWR} 0 0 lock_test_world \<and>
   open_and_lock F3 {BLOBSTORE_FLAG_RDWR, BLOBSTORE_FLAG_EXCL} 0 0 lock_test_world
     = Some (0, lock_test_world
                  \<lparr>errno := E_ZERO,
                    locks_list :=
                      [\<lparr>fl_path = F3, fl_type = F_WRLCK, refs = 1, next_fd = 1,
                        fd = (replicate BLOBSTORE_MAX_CONCURRENT 0)[0 := 0],
                        fd_status = (replicate BLOBSTORE_MAX_CONCURRENT 0)[0 := 1],
                        rw_lock = RW_WRITER\<rparr>],
                    open_fds := [(0, F3)]\<rparr>)"
proof -
  have e: "{BLOBSTORE_FLAG_RDWR, BLOBSTORE_FLAG_EXCL} - {BLOBSTORE_FLAG_EXCL} = {BLOBSTORE_FLAG_RDWR}"
    by auto
  have f: "map_of (fs lock_test_world) F3 = Some (Reg [] 0)"
    by (simp add: lock_test_world_def F3_def)
  have l: "the_lock F3 lock_test_world = None"
    by (simp add: lock_test_world_def the_lock_def)
  have n: "foreign_locks lock_test_world = []" "locks_list lock_test_world = []"
    "open_fds lock_test_world = []"
    by (simp_all add: lock_test_world_def)
  have d: "fresh_fd [] = 0" by (simp add: fresh_fd_def)
  have p: "F3 \<noteq> []" by (simp add: F3_def)
  note th = open_and_lock_excl_ignored
         [of "{BLOBSTORE_FLAG_RDWR, BLOBSTORE_FLAG_EXCL}" F3 0 0 lock_test_world "[]" 0]
  have t1: "open_and_lock F3 {BLOBSTORE_FLAG_RDWR, BLOBSTORE_FLAG_EXCL} 0 0 lock_test_world
       = open_and_lock F3 {BLOBSTORE_FLAG_RDWR} 0 0 lock_test_world"
    using th [THEN conjunct1] e by simp
  have t2: "open_and_lock F3 {BLOBSTORE_FLAG_RDWR, BLOBSTORE_FLAG_EXCL} 0 0 lock_test_world
       = Some (0, lock_test_world
                  \<lparr>errno := E_ZERO,
                    locks_list :=
                      [\<lparr>fl_path = F3, fl_type = F_WRLCK, refs = 1, next_fd = 1,
                        fd = (replicate BLOBSTORE_MAX_CONCURRENT 0)[0 := 0],
                        fd_status = (replicate BLOBSTORE_MAX_CONCURRENT 0)[0 := 1],
                        rw_lock = RW_WRITER\<rparr>],
                    open_fds := [(0, F3)]\<rparr>)"
    using th [THEN conjunct2] f l n d p by simp
  note t = conjI [OF t1 t2]
  have m: "BLOBSTORE_FLAG_EXCL \<in> {BLOBSTORE_FLAG_RDWR, BLOBSTORE_FLAG_EXCL} \<and>
   BLOBSTORE_FLAG_CREAT \<notin> {BLOBSTORE_FLAG_RDWR, BLOBSTORE_FLAG_EXCL} \<and>
   BLOBSTORE_FLAG_RDWR \<in> {BLOBSTORE_FLAG_RDWR, BLOBSTORE_FLAG_EXCL} \<and>
   BLOBSTORE_FLAG_RDONLY \<notin> {BLOBSTORE_FLAG_RDWR, BLOBSTORE_FLAG_EXCL}"
    by simp
  from m f l n(1) t show ?thesis by blast
qed

text \<open>
  Claim C9 as the spec states it fails for flags without \<open>BLOBSTORE_FLAG_RDWR\<close>. On the
  existing file \<open>F3\<close>, with nothing locked, the call with \<open>BLOBSTORE_FLAG_EXCL\<close> alone
  fails with \<open>BLOBSTORE_ERROR_INVAL\<close>, and the call with \<open>BLOBSTORE_FLAG_RDONLY\<close> and
  \<open>BLOBSTORE_FLAG_EXCL\<close> takes a read lock, not a write lock.
\<close>

theorem open_and_lock_excl_alone_counterexample:
  "BLOBSTORE_FLAG_EXCL \<in> {BLOBSTORE_FLAG_EXCL} \<and>
   BLOBSTORE_FLAG_CREAT \<notin> {BLOBSTORE_FLAG_EXCL} \<and>
   map_of (fs lock_test_world) F3 = Some (Reg [] 0) \<and>
   locks_list lock_test_world = [] \<and> foreign_locks lock_test_world = [] \<and>
   open_and_lock F3 {BLOBSTORE_FLAG_EXCL} 0 0 lock_test_world
     = Some (- 1, err BLOBSTORE_ERROR_INVAL lock_test_world) \<and>
   BLOBSTORE_FLAG_EXCL \<in> {BLOBSTORE_FLAG_RDONLY, BLOBSTORE_FLAG_EXCL} \<and>
   BLOBSTORE_FLAG_CREAT \<notin> {BLOBSTORE_FLAG_RDONLY, BLOBSTORE_FLAG_EXCL} \<and>
   map_option fst
     (open_and_lock F3 {BLOBSTORE_FLAG_RDONLY, BLOBSTORE_FLAG_EXCL} 0 0 lock_test_world)
     = Some 0 \<and>
   map_option (\<lambda>r. map (\<lambda>l. (fl_path l, fl_type l, rw_lock l)) (locks_list (snd r)))
     (open_and_lock F3 {BLOBSTORE_FLAG_RDONLY, BLOBSTORE_FLAG_EXCL} 0 0 lock_test_world)
     = Some [(F3, F_RDLCK, RW_READERS 1)]"
proof -
  have a: "open_and_lock F3 {BLOBSTORE_FLAG_EXCL} 0 0 lock_test_world
             = Some (- 1, err BLOBSTORE_ERROR_INVAL lock_test_world)"
    unfolding open_and_lock_def by (simp add: lock_type_of_flags_def)
  have b: "map_option fst
     (open_and_lock F3 {BLOBSTORE_FLAG_RDONLY, BLOBSTORE_FLAG_EXCL} 0 0 lock_test_world)
     = Some 0"
    unfolding open_and_lock_def
    by (simp add: lock_test_world_def lock_type_of_flags_def the_lock_def
        sys_open_def upd_lock_def calloc_filelock_def fresh_fd_def time_usec_def Let_def
        open_and_lock_wait.simps pthread_rwlock_try_def fcntl_setlk_def
        BLOBSTORE_MAX_CONCURRENT_def F3_def)
  have c: "map_option (\<lambda>r. map (\<lambda>l. (fl_path l, fl_type l, rw_lock l)) (locks_list (snd r)))
     (open_and_lock F3 {BLOBSTORE_FLAG_RDONLY, BLOBSTORE_FLAG_EXCL} 0 0 lock_test_world)
     = Some [(F3, F_RDLCK, RW_READERS 1)]"
    unfolding open_and_lock_def
    by (simp add: lock_test_world_def lock_type_of_flags_def the_lock_def
        sys_open_def upd_lock_def calloc_filelock_def fresh_fd_def time_usec_def Let_def
        open_and_lock_wait.simps pthread_rwlock_try_def fcntl_setlk_def
        BLOBSTORE_MAX_CONCURRENT_def F3_def)
  have d: "map_of (fs lock_test_world) F3 = Some (Reg [] 0)"
    "locks_list lock_test_world = []" "foreign_locks lock_test_world = []"
    by (simp_all add: lock_test_world_def F3_def)
  from a b c d show ?thesis by simp
qed

subsection \<open>NULL handles\<close>

text \<open>
  Claim C10. On a NULL handle \<^verbatim>\<open>blockblob_close\<close>, \<^verbatim>\<open>blockblob_delete\<close>,
  \<^verbatim>\<open>blockblob_get_dev\<close> and \<^verbatim>\<open>blockblob_get_size\<close> return -1, -1, NULL and 0, and the
  world afterwards is the world before with the last error set to
  \<open>BLOBSTORE_ERROR_INVAL\<close>: nothing else has changed.
\<close>

theorem null_handle_invalid:
  "blockblob_close None w = Some (- 1, w\<lparr>blobstore_errno := BLOBSTORE_ERROR_INVAL\<rparr>) \<and>
   blockblob_delete None timeout_usec w = Some (- 1, w\<lparr>blobstore_errno := BLOBSTORE_ERROR_INVAL\<rparr>) \<and>
   blockblob_get_dev None w = (None, w\<lparr>blobstore_errno := BLOBSTORE_ERROR_INVAL\<rparr>) \<and>
   blockblob_get_size None w = (0, w\<lparr>blobstore_errno := BLOBSTORE_ERROR_INVAL\<rparr>)"
  by (simp add: blockblob_close_def blockblob_delete_def blockblob_get_dev_def
      blockblob_get_size_def err_def)

subsection \<open>Preconditions of \<^verbatim>\<open>blockblob_open\<close>\<close>

text \<open>
  Claim C5. \<^verbatim>\<open>blockblob_open\<close> checks its arguments first, in this order, and a call
  that fails a check returns NULL with nothing changed but the last error: a flag other
  than \<open>BLOBSTORE_FLAG_CREAT\<close> and \<open>BLOBSTORE_FLAG_EXCL\<close> gives \<open>BLOBSTORE_ERROR_INVAL\<close>; a
  NULL id without \<open>BLOBSTORE_FLAG_CREAT\<close> gives \<open>BLOBSTORE_ERROR_INVAL\<close>; size 0 with
  \<open>BLOBSTORE_FLAG_CREAT\<close> gives \<open>BLOBSTORE_ERROR_INVAL\<close>; and, for a call with permitted
  flags (any other fails as the first clause says), a size above \<open>limit_blocks\<close> with
  \<open>BLOBSTORE_FLAG_CREAT\<close> gives \<open>BLOBSTORE_ERROR_NOSPC\<close>.
\<close>

theorem blockblob_open_preconditions:
  "(flags - {BLOBSTORE_FLAG_CREAT, BLOBSTORE_FLAG_EXCL} \<noteq> {} \<longrightarrow>
      blockblob_open bs id_opt sz flags sig timeout w
        = Some (None, w\<lparr>blobstore_errno := BLOBSTORE_ERROR_INVAL\<rparr>)) \<and>
   (id_opt = None \<and> BLOBSTORE_FLAG_CREAT \<notin> flags \<longrightarrow>
      blockblob_open bs id_opt sz flags sig timeout w
        = Some (None, w\<lparr>blobstore_errno := BLOBSTORE_ERROR_INVAL\<rparr>)) \<and>
   (sz = 0 \<and> BLOBSTORE_FLAG_CREAT \<in> flags \<longrightarrow>
      blockblob_open bs id_opt sz flags sig timeout w
        = Some (None, w\<lparr>blobstore_errno := BLOBSTORE_ERROR_INVAL\<rparr>)) \<and>
   (flags - {BLOBSTORE_FLAG_CREAT, BLOBSTORE_FLAG_EXCL} = {} \<and>
    sz > limit_blocks bs \<and> BLOBSTORE_FLAG_CREAT \<in> flags \<longrightarrow>
      blockblob_open bs id_opt sz flags sig timeout w
        = Some (None, w\<lparr>blobstore_errno := BLOBSTORE_ERROR_NOSPC\<rparr>))"
  unfolding blockblob_open_def by (simp add: err_def)

theorem blockblob_open_preconditions_witness:
  "blockblob_open test_store None 10
     {BLOBSTORE_FLAG_CREAT, BLOBSTORE_FLAG_EXCL, BLOBSTORE_FLAG_RDWR} None 0 lock_test_world
     = Some (None, lock_test_world\<lparr>blobstore_errno := BLOBSTORE_ERROR_INVAL\<rparr>) \<and>
   blockblob_open test_store None 10 {} (Some ''BLOCKBLOB-01'') 0 lock_test_world
     = Some (None, lock_test_world\<lparr>blobstore_errno := BLOBSTORE_ERROR_INVAL\<rparr>) \<and>
   blockblob_open test_store None 0 {BLOBSTORE_FLAG_CREAT, BLOBSTORE_FLAG_EXCL} None 0
     lock_test_world
     = Some (None, lock_test_world\<lparr>blobstore_errno := BLOBSTORE_ERROR_INVAL\<rparr>) \<and>
   blockblob_open test_store None 31 {BLOBSTORE_FLAG_CREAT, BLOBSTORE_FLAG_EXCL} None 0
     lock_test_world
     = Some (None, lock_test_world\<lparr>blobstore_errno := BLOBSTORE_ERROR_NOSPC\<rparr>)"
proof -
  have l: "limit_blocks test_store = 30" by (simp add: test_store_def)
  have a: "{BLOBSTORE_FLAG_CREAT, BLOBSTORE_FLAG_EXCL, BLOBSTORE_FLAG_RDWR}
             - {BLOBSTORE_FLAG_CREAT, BLOBSTORE_FLAG_EXCL} \<noteq> {}" by auto
  show ?thesis
    using blockblob_open_preconditions
            [of "{BLOBSTORE_FLAG_CREAT, BLOBSTORE_FLAG_EXCL, BLOBSTORE_FLAG_RDWR}" test_store
                None 10 None 0 lock_test_world]
          blockblob_open_preconditions
            [of "{}" test_store None 10 "Some ''BLOCKBLOB-01''" 0 lock_test_world]
          blockblob_open_preconditions
            [of "{BLOBSTORE_FLAG_CREAT, BLOBSTORE_FLAG_EXCL}" test_store None 0 None 0
                lock_test_world]
          blockblob_open_preconditions
            [of "{BLOBSTORE_FLAG_CREAT, BLOBSTORE_FLAG_EXCL}" test_store None 31 None 0
                lock_test_world]
          a l
    by simp
qed

subsection \<open>List sidecars: write, then read\<close>

lemma set_blockblob_metadata_path_ok:
  "path_t \<noteq> BLOCKBLOB_PATH_NONE \<Longrightarrow> format bs \<noteq> BLOBSTORE_FORMAT_ANY \<Longrightarrow>
   set_blockblob_metadata_path path_t bs blob_id buf w = ((0, sidecar_path path_t bs blob_id), w)"
  by (cases "format bs") (simp_all add: set_blockblob_metadata_path_def sidecar_path_def)

lemma set_blockblob_metadata_path_bad:
  "path_t = BLOCKBLOB_PATH_NONE \<or> format bs = BLOBSTORE_FORMAT_ANY \<Longrightarrow>
   set_blockblob_metadata_path path_t bs blob_id buf w = ((- 1, buf), err BLOBSTORE_ERROR_INVAL w)"
  by (auto simp: set_blockblob_metadata_path_def Let_def)

lemma getline_line:
  assumes "CHR 0x0A \<notin> set e"
  shows "getline (e @ CHR 0x0A # rest) = Some (e @ [CHR 0x0A], rest)"
proof -
  have "dropWhile (\<lambda>c. c \<noteq> CHR 0x0A) (e @ CHR 0x0A # rest) = CHR 0x0A # rest"
    using assms by (auto simp: dropWhile_append3)
  moreover have "takeWhile (\<lambda>c. c \<noteq> CHR 0x0A) (e @ CHR 0x0A # rest) = e"
    using assms by (auto simp: takeWhile_tail)
  ultimately show ?thesis by (simp add: getline_def)
qed

lemma read_lines_written:
  "\<forall>e \<in> set es. CHR 0x0A \<notin> set e \<Longrightarrow>
   read_lines (concat (map (\<lambda>e. e @ [CHR 0x0A]) es)) = es"
proof (induction es)
  case Nil
  show ?case by (subst read_lines.simps) (simp add: getline_def)
next
  case (Cons e es)
  then have g: "getline (e @ CHR 0x0A # concat (map (\<lambda>e. e @ [CHR 0x0A]) es))
                = Some (e @ [CHR 0x0A], concat (map (\<lambda>e. e @ [CHR 0x0A]) es))"
    by (simp add: getline_line)
  have "read_lines (concat (map (\<lambda>e. e @ [CHR 0x0A]) (e # es)))
        = chop_newline (e @ [CHR 0x0A]) # read_lines (concat (map (\<lambda>e. e @ [CHR 0x0A]) es))"
    by (subst read_lines.simps) (simp add: g)
  with Cons show ?case by (simp add: chop_newline_def)
qed

lemma sys_write_file_content:
  assumes "sys_write_file p s w = (True, w')" and "map_of (fs w) p \<noteq> Some Blk"
  shows "map_of (fs w') p = Some (Reg s (now w))"
  using assms unfolding sys_write_file_def
  by (auto simp: update_conv' split: if_splits option.splits node.splits)

text \<open>
  Claim C7, as the code has it. For entries without a newline character: when
  \<^verbatim>\<open>write_array_blockblob_metadata_path\<close> has returned 0, on a path that is not a block
  device, \<^verbatim>\<open>read_array_blockblob_metadata_path\<close> returns 0 and the same entries in the
  same order (so also the same number of them).
\<close>

theorem write_then_read_array:
  assumes "\<forall>e \<in> set array. CHR 0x0A \<notin> set e"
    and "map_of (fs w) (sidecar_path path_t bs blob_id) \<noteq> Some Blk"
    and "write_array_blockblob_metadata_path path_t bs blob_id array w = (0, w')"
  shows "fst (read_array_blockblob_metadata_path path_t bs blob_id w') = (0, array)"
proof (cases "path_t = BLOCKBLOB_PATH_NONE \<or> format bs = BLOBSTORE_FORMAT_ANY")
  case True
  then have False
    using assms(3) unfolding write_array_blockblob_metadata_path_def
    by (simp add: set_blockblob_metadata_path_bad sys_write_file_def)
  then show ?thesis ..
next
  case False
  let ?p = "sidecar_path path_t bs blob_id"
  let ?s = "concat (map (\<lambda>e. e @ [CHR 0x0A]) array)"
  from False have p: "\<And>buf v. set_blockblob_metadata_path path_t bs blob_id buf v = ((0, ?p), v)"
    by (simp add: set_blockblob_metadata_path_ok)
  from assms(3) have "sys_write_file ?p ?s w = (True, w')"
    unfolding write_array_blockblob_metadata_path_def
    by (simp add: p split: prod.splits if_splits)
  from sys_write_file_content [OF this assms(2)]
  have "map_of (fs w') ?p = Some (Reg ?s (now w))" .
  then show ?thesis
    unfolding read_array_blockblob_metadata_path_def
    by (simp add: p read_lines_written [OF assms(1)])
qed

lemma store_world_write:
  "write_array_blockblob_metadata_path BLOCKBLOB_PATH_DM test_store ''B1'' es store_world
   = (0, store_world\<lparr>fs := fs store_world @
                           [(''/bs/B1.dm'', Reg (concat (map (\<lambda>e. e @ [CHR 0x0A]) es)) 0)]\<rparr>)"
  by (simp add: write_array_blockblob_metadata_path_def set_blockblob_metadata_path_def
      test_store_def store_world_def lock_test_world_def sys_write_file_def is_dir_def
      parent_dir_def)

theorem write_then_read_array_witness:
  "CHR 0x0A \<notin> set ''euca-B1-p0-back'' \<and> CHR 0x0A \<notin> set ''euca-B1'' \<and>
   map_of (fs store_world) (sidecar_path BLOCKBLOB_PATH_DM test_store ''B1'') \<noteq> Some Blk \<and>
   fst (write_array_blockblob_metadata_path BLOCKBLOB_PATH_DM test_store ''B1''
          [''euca-B1-p0-back'', ''euca-B1''] store_world) = 0 \<and>
   fst (read_array_blockblob_metadata_path BLOCKBLOB_PATH_DM test_store ''B1''
          (snd (write_array_blockblob_metadata_path BLOCKBLOB_PATH_DM test_store ''B1''
                  [''euca-B1-p0-back'', ''euca-B1''] store_world)))
     = (0, [''euca-B1-p0-back'', ''euca-B1''])"
proof -
  have a: "\<forall>e \<in> set [''euca-B1-p0-back'', ''euca-B1'']. CHR 0x0A \<notin> set e" by simp
  have b: "map_of (fs store_world) (sidecar_path BLOCKBLOB_PATH_DM test_store ''B1'') \<noteq> Some Blk"
    by (simp add: store_world_def sidecar_path_def test_store_def)
  from write_then_read_array [OF a b store_world_write] a b show ?thesis
    by (simp add: store_world_write)
qed

text \<open>
  The counterexample to C7 as stated: the one entry \<open>a\<close>, newline, \<open>b\<close> is written with
  success and read back as the two entries \<open>a\<close> and \<open>b\<close>.
\<close>

theorem write_then_read_array_counterexample:
  "fst (write_array_blockblob_metadata_path BLOCKBLOB_PATH_DM test_store ''B1''
          [[CHR ''a'', CHR 0x0A, CHR ''b'']] store_world) = 0 \<and>
   fst (read_array_blockblob_metadata_path BLOCKBLOB_PATH_DM test_store ''B1''
          (snd (write_array_blockblob_metadata_path BLOCKBLOB_PATH_DM test_store ''B1''
                  [[CHR ''a'', CHR 0x0A, CHR ''b'']] store_world)))
     = (0, [''a'', ''b''])"
proof -
  have "read_lines (concat (map (\<lambda>e. e @ [CHR 0x0A]) [[CHR ''a'', CHR 0x0A, CHR ''b'']]))
        = read_lines (concat (map (\<lambda>e. e @ [CHR 0x0A]) [''a'', ''b'']))"
    by simp
  also have "\<dots> = [''a'', ''b'']" by (rule read_lines_written) simp
  finally show ?thesis
    by (simp add: store_world_write)
       (simp add: read_array_blockblob_metadata_path_def set_blockblob_metadata_path_def
          test_store_def store_world_def)
qed

subsection \<open>\<^verbatim>\<open>blockblob_clone\<close> with copies only\<close>

lemma clone_verify_copy:
  "\<forall>m \<in> set ms. relation_type m = BLOBSTORE_COPY \<Longrightarrow>
   fs (snd (clone_verify bb ms z w)) = fs w \<and>
   helper_calls (snd (clone_verify bb ms z w)) = helper_calls w"
proof (induction ms arbitrary: z w)
  case Nil
  show ?case by simp
next
  case (Cons m ms)
  then have c: "relation_type m = BLOBSTORE_COPY" and
    ih: "\<And>z w. fs (snd (clone_verify bb ms z w)) = fs w \<and>
                helper_calls (snd (clone_verify bb ms z w)) = helper_calls w"
    by simp_all
  show ?case
    by (simp add: c ih err_def propagate_system_errno_def
        split: blockmap_source_t.splits option.splits node.splits)
qed

lemma clone_exec_copy:
  "\<forall>m \<in> set ms. relation_type m = BLOBSTORE_COPY \<Longrightarrow>
   fs (snd (clone_exec bb base z i ms t w)) = fs w \<and>
   mapped_or_snapshotted (snd (fst (clone_exec bb base z i ms t w))) = mapped_or_snapshotted t \<and>
   (\<exists>cs. helper_calls (snd (clone_exec bb base z i ms t w)) = helper_calls w @ cs \<and>
         list_all is_dd2 cs)"
proof (induction ms arbitrary: i t w)
  case Nil
  show ?case by simp
next
  case (Cons m ms)
  then have c: "relation_type m = BLOBSTORE_COPY" and
    r: "\<forall>m \<in> set ms. relation_type m = BLOBSTORE_COPY" by simp_all
  let ?dev = "case source_type m of
                BLOBSTORE_DEVICE \<Rightarrow> source_device_path (source m)
              | BLOBSTORE_BLOCKBLOB \<Rightarrow> map_option device_path (source_blob (source m))
              | BLOBSTORE_ZERO \<Rightarrow> z"
  let ?c = "DISKUTIL_DD2 ?dev (device_path bb) 512 (len_blocks m) (first_block_dst m)
              (first_block_src m)"
  let ?w1 = "w\<lparr>helper_calls := helper_calls w @ [?c]\<rparr>"
  show ?case
  proof (cases "helper_ok w ?c")
    case False
    then have "clone_exec bb base z i (m # ms) t w = ((False, t), err BLOBSTORE_ERROR_INVAL ?w1)"
      by (simp add: c diskutil_dd2_def Let_def)
    then show ?thesis by (simp add: err_def is_dd2_def)
  next
    case True
    let ?t1 = "t\<lparr>main_dm_table := main_dm_table t @ dec_nat (first_block_dst m) @
                       '' '' @ dec_nat (len_blocks m) @ '' linear '' @
                       device_path bb @ '' '' @ dec_nat (first_block_dst m) @ [CHR 0x0A]\<rparr>"
    from True have e: "clone_exec bb base z i (m # ms) t w
                       = clone_exec bb base z (i + 1) ms ?t1 ?w1"
      by (simp add: c diskutil_dd2_def Let_def)
    note ih = Cons.IH [OF r, of "i + 1" ?t1 ?w1]
    from ih have h1: "fs (snd (clone_exec bb base z (i + 1) ms ?t1 ?w1)) = fs ?w1"
      by (rule conjunct1)
    from ih have h2: "mapped_or_snapshotted (snd (fst (clone_exec bb base z (i + 1) ms ?t1 ?w1)))
          = mapped_or_snapshotted ?t1"
      by (rule conjunct1 [OF conjunct2])
    from ih have "\<exists>cs. helper_calls (snd (clone_exec bb base z (i + 1) ms ?t1 ?w1))
          = helper_calls ?w1 @ cs \<and> list_all is_dd2 cs"
      by (rule conjunct2 [OF conjunct2])
    then obtain cs where h3: "helper_calls (snd (clone_exec bb base z (i + 1) ms ?t1 ?w1))
          = helper_calls ?w1 @ cs" and h4: "list_all is_dd2 cs"
      by blast
    have d: "is_dd2 ?c" by (simp add: is_dd2_def)
    have "helper_calls (snd (clone_exec bb base z (i + 1) ms ?t1 ?w1))
          = helper_calls w @ (?c # cs) \<and> list_all is_dd2 (?c # cs)"
      using h3 h4 d by simp
    then have "\<exists>cs. helper_calls (snd (clone_exec bb base z (i + 1) ms ?t1 ?w1))
          = helper_calls w @ cs \<and> list_all is_dd2 cs"
      by (rule exI)
    with h1 h2 show ?thesis unfolding e by simp
  qed
qed

text \<open>
  Claim C8. When every entry of the map has the relation \<open>BLOBSTORE_COPY\<close>,
  \<^verbatim>\<open>blockblob_clone\<close> leaves the handle of the destination as it was (so its
  \<open>device_path\<close>), leaves the file system as it was (no \<open>dm\<close>, \<open>refs\<close> or \<open>deps\<close> sidecar is
  written; what \<^verbatim>\<open>diskutil_dd2\<close> writes through the devices is no part of the modelled
  file system), and calls no external helper but \<^verbatim>\<open>diskutil_dd2\<close>: no device of the
  device mapper is created.
\<close>

theorem blockblob_clone_copies_only:
  assumes "\<forall>m \<in> set bmap. relation_type m = BLOBSTORE_COPY"
  shows "snd (fst (blockblob_clone mx (Some bb) (Some bmap) w)) = Some bb \<and>
         fs (snd (blockblob_clone mx (Some bb) (Some bmap) w)) = fs w \<and>
         (\<exists>cs. helper_calls (snd (blockblob_clone mx (Some bb) (Some bmap) w))
                 = helper_calls w @ cs \<and> list_all is_dd2 cs)"
proof -
  let ?base = "''euca-'' @ map (\<lambda>c. if c = CHR ''/'' then CHR ''-'' else c) (bb_id bb)"
  let ?t0 = "\<lparr>dev_names = [], dm_tables = [], main_dm_table = [], mapped_or_snapshotted = 0\<rparr>"
  obtain a zd w1 where v: "clone_verify bb bmap None w = ((a, zd), w1)"
    by (cases "clone_verify bb bmap None w") auto
  obtain ok t' w2 where e: "clone_exec bb ?base zd 0 bmap ?t0 w1 = ((ok, t'), w2)"
    by (cases "clone_exec bb ?base zd 0 bmap ?t0 w1") auto
  from clone_verify_copy [OF assms, of bb None w] v
  have v1: "fs w1 = fs w" "helper_calls w1 = helper_calls w" by simp_all
  from clone_exec_copy [OF assms, of bb ?base zd 0 ?t0 w1] e
  have e1: "fs w2 = fs w1" "mapped_or_snapshotted t' = 0"
    "\<exists>cs. helper_calls w2 = helper_calls w1 @ cs \<and> list_all is_dd2 cs"
    by simp_all
  have n: "\<exists>cs. helper_calls w = helper_calls w @ cs \<and> list_all is_dd2 cs"
    by (rule exI [of _ "[]"]) simp
  have "blockblob_clone mx (Some bb) (Some bmap) w =
          (if length bmap < 1 \<or> length bmap > mx
           then ((- 1, Some bb), err BLOBSTORE_ERROR_INVAL w)
           else if \<not> a then ((- 1, Some bb), w1)
           else if \<not> ok then ((- 1, Some bb), w2)
           else ((0, Some bb), w2))"
    unfolding blockblob_clone_def using v e e1(2) by (simp add: Let_def)
  then show ?thesis using v1 e1 n
    by (simp add: err_def)
qed

lemma clone_copy_from_B2:
  "blockblob_clone 32 (Some blob_B4) (Some [copy_from_B2]) clone_world
   = ((0, Some blob_B4),
      clone_world\<lparr>helper_calls := [DISKUTIL_DD2 (Some ''/dev/loop1'') ''/dev/loop0'' 512 32 32 0]\<rparr>)"
  by (simp add: blockblob_clone_def copy_from_B2_def blob_B4_def blob_B2_def clone_world_def
      lock_test_world_def test_store_def st_size_def diskutil_dd2_def Let_def)

theorem blockblob_clone_copies_only_witness:
  "relation_type copy_from_B2 = BLOBSTORE_COPY \<and>
   blockblob_clone 32 (Some blob_B4) (Some [copy_from_B2]) clone_world
   = ((0, Some blob_B4),
      clone_world\<lparr>helper_calls := [DISKUTIL_DD2 (Some ''/dev/loop1'') ''/dev/loop0'' 512 32 32 0]\<rparr>) \<and>
   fs (snd (blockblob_clone 32 (Some blob_B4) (Some [copy_from_B2]) clone_world)) = fs clone_world"
proof -
  have a: "\<forall>m \<in> set [copy_from_B2]. relation_type m = BLOBSTORE_COPY"
    by (simp add: copy_from_B2_def)
  from blockblob_clone_copies_only [OF a, of 32 blob_B4 clone_world] a clone_copy_from_B2
  show ?thesis by simp
qed

subsection \<open>The bound on the destination in \<^verbatim>\<open>blockblob_clone\<close>\<close>

text \<open>
  Claim C2 against the code. The test \<^verbatim>\<open>bb->size_blocks < first_block_dst + len_blocks\<close>
  stands inside the case \<open>BLOBSTORE_BLOCKBLOB\<close> of the verification loop, so it is made
  for a blob source only. With the destination \<open>B4\<close> of 96 blocks and an entry that
  copies 32 blocks to block 90: from the blob \<open>B2\<close> the call fails with
  \<open>BLOBSTORE_ERROR_INVAL\<close> and no helper is called; from a device, or from zeros, the
  call returns 0 and \<^verbatim>\<open>diskutil_dd2\<close> is run with those numbers.
\<close>

theorem blockblob_clone_destination_bound:
  "blockblob_clone 32 (Some blob_B4) (Some [past_end_from_B2]) clone_world
     = ((- 1, Some blob_B4), clone_world\<lparr>blobstore_errno := BLOBSTORE_ERROR_INVAL\<rparr>) \<and>
   blockblob_clone 32 (Some blob_B4) (Some [past_end_from_device]) clone_world
     = ((0, Some blob_B4),
        clone_world\<lparr>helper_calls := [DISKUTIL_DD2 (Some ''/dev/sdb'') ''/dev/loop0'' 512 32 90 0]\<rparr>) \<and>
   blockblob_clone 32 (Some blob_B4) (Some [past_end_from_zero]) clone_world
     = ((0, Some blob_B4),
        clone_world\<lparr>helper_calls := [DISKUTIL_DD2 None ''/dev/loop0'' 512 32 90 0]\<rparr>)"
  by (simp add: blockblob_clone_def past_end_from_B2_def past_end_from_device_def
      past_end_from_zero_def blob_B4_def blob_B2_def clone_world_def
      lock_test_world_def test_store_def st_size_def diskutil_dd2_def Let_def err_def)

subsection \<open>LRU revocation\<close>

















subsection \<open>Deleting a blob\<close>

lemma parent_dir_prefix:
  assumes "parent_dir k = p" and "p \<noteq> []"
  shows "starts_with (p @ ''/'') k"
proof -
  let ?P = "\<lambda>c. c \<noteq> CHR ''/''"
  have "dropWhile ?P (rev k) \<noteq> []"
  proof
    assume a: "dropWhile ?P (rev k) = []"
    have "parent_dir k = []" unfolding parent_dir_def a by simp
    with assms show False by simp
  qed
  then obtain x d where d: "dropWhile ?P (rev k) = x # d"
    by (cases "dropWhile ?P (rev k)") auto
  then have "\<not> ?P x" using hd_dropWhile [of ?P "rev k"] by auto
  then have x: "x = CHR ''/''" by simp
  from d assms have p: "p = rev d" by (simp add: parent_dir_def)
  have "rev k = takeWhile ?P (rev k) @ dropWhile ?P (rev k)" by simp
  with d x have "rev k = takeWhile ?P (rev k) @ CHR ''/'' # d" by simp
  then have "rev (rev k) = rev (takeWhile ?P (rev k) @ CHR ''/'' # d)" by simp
  then have "k = (rev d @ ''/'') @ rev (takeWhile ?P (rev k))" by simp
  then obtain t where "k = (p @ ''/'') @ t" using p by blast
  then show ?thesis by (simp add: starts_with_def)
qed

lemma fs_tree_iff:
  "fs_tree f \<longleftrightarrow> (\<forall>(k, n) \<in> set f. k \<noteq> [] \<and> is_dir f (parent_dir k))"
  by (simp add: fs_tree_def list_all_iff)



lemma set_delete_subset:
  "set (AList.delete p f) \<subseteq> set f"
  by (auto simp: AList.delete_eq)

lemma fs_tree_delete:
  assumes "fs_tree f" and "p \<noteq> []"
    and "\<forall>(k, n) \<in> set f. k \<noteq> p \<longrightarrow> parent_dir k \<noteq> p"
  shows "fs_tree (AList.delete p f)"
  unfolding fs_tree_iff
proof (clarify)
  fix k n assume kn: "(k, n) \<in> set (AList.delete p f)"
  then have in_f: "(k, n) \<in> set f" and kp: "k \<noteq> p" by (auto simp: AList.delete_eq)
  with assms have "k \<noteq> []" "is_dir f (parent_dir k)" "parent_dir k \<noteq> p"
    by (auto simp: fs_tree_iff)
  then show "k \<noteq> [] \<and> is_dir (AList.delete p f) (parent_dir k)"
    by (auto simp: is_dir_def AList.delete_conv')
qed


lemma fs_tree_delete_dir:
  assumes "fs_tree f" and "p \<noteq> []" and "dir_empty f p"
  shows "fs_tree (AList.delete p f)"
  using assms(1,2)
proof (rule fs_tree_delete)
  show "\<forall>(k, n) \<in> set f. k \<noteq> p \<longrightarrow> parent_dir k \<noteq> p"
    using assms parent_dir_prefix by (fastforce simp: dir_empty_def list_all_iff)
qed




lemma fs_step_refl:
  "fs_step f f"
  by (simp add: fs_step_def)





lemma fs_step_delete_dir:
  "p \<noteq> [] \<Longrightarrow> dir_empty f p \<Longrightarrow> fs_step f (AList.delete p f)"
  by (auto simp: fs_step_def fs_tree_delete_dir AList.delete_conv' split: if_splits)



lemma fs_err [simp]:
  "fs (err e w) = fs w" "fs (err_on w) = fs w" "fs (err_off w) = fs w"
  "fs (propagate_system_errno e w) = fs w" "fs (usleep n w) = fs w"
  "fs (sys_close d w) = fs w" "fs (upd_lock p g w) = fs w"
  by (simp_all add: err_def err_on_def err_off_def propagate_system_errno_def usleep_def
        sys_close_def upd_lock_def Let_def)


lemma fs_fold_sys_close [simp]:
  "fs (fold sys_close ds w) = fs w"
  by (induction ds arbitrary: w) simp_all

lemma fs_close_and_free_filelock [simp]:
  "fs (close_and_free_filelock l w) = fs w"
  by (simp add: close_and_free_filelock_def)

lemma fs_open_and_lock_error [simp]:
  "fs (open_and_lock_error p existed acquired d w) = fs w"
  by (simp add: open_and_lock_error_def Let_def split: option.splits)






lemma sys_rmdir_step:
  "fs_step (fs w) (fs (snd (sys_rmdir p w)))"
  by (auto simp: sys_rmdir_def fs_step_refl intro!: fs_step_delete_dir
        split: option.splits node.splits)

























lemma fs_blobstore_init [simp]:
  "fs (snd (blobstore_init w)) = fs w"
  by (simp add: blobstore_init_def Let_def)




























end
